theory Spec2Isabelle
  imports Main "HOL-Library.Word" "HOL-Library.Char_ord" "HOL-Library.List_Lexorder"
begin

unbundle bit_operations_syntax

section \<open>RocksKeyValue: a key-value layer over an embedded LSM engine\<close>

text \<open>
  A shallow embedding of \<^verbatim>\<open>src/RocksKeyValue.cc\<close>. The data model is LP64: \<^verbatim>\<open>int\<close> has
  32 bits, \<^verbatim>\<open>long\<close> and \<^verbatim>\<open>size_t\<close> have 64. Strings are byte strings, ordered bytewise
  (the order of \<^verbatim>\<open>std::map<const std::string, ...>\<close>).
\<close>

type_synonym size_t = "64 word"
type_synonym long = "64 word"
type_synonym cint = "32 word"

subsection \<open>Status values\<close>

text \<open>
  \<^verbatim>\<open>rocksdb::Status::Code\<close>. The eleven codes that \<^verbatim>\<open>convertStatus\<close> names, and
  \<open>kOther n\<close> for every code of the engine that the switch does not list (\<open>n\<close> its
  number), which is what reaches the \<^verbatim>\<open>default\<close> label.
\<close>

datatype Code =
    kOk | kNotFound | kCorruption | kNotSupported | kInvalidArgument | kIOError
  | kMergeInProgress | kIncomplete | kShutdownInProgress | kTimedOut | kAborted
  | kOther nat

text \<open>\<^verbatim>\<open>rocksdb::Status\<close>: the code and the text that \<^verbatim>\<open>ToString()\<close> gives.\<close>

record rocksdb_Status =
  code :: Code
  ToString :: string

definition ok :: "rocksdb_Status \<Rightarrow> bool" where
  "ok s = (code s = kOk)"

definition Status_OK :: rocksdb_Status where
  "Status_OK = \<lparr>code = kOk, ToString = ''OK''\<rparr>"

text \<open>
  Modelled from the spec: \<^verbatim>\<open>GLnexus::Status\<close>, whose declaration is in a header that is not
  part of the source file. A status is a kind of the closed taxonomy of the specification,
  with the message that the call of the factory passes and its second argument (the noun),
  each absent when the call passes none: \<open>Status0\<close>, \<open>Status1\<close> and \<open>Status2\<close> are the
  factory calls with no, one and two arguments.
\<close>

datatype ErrorKind = OK | NotFound | Exists | Invalid | IOError | NotImplemented | Failure

record Status =
  kind :: ErrorKind
  msg :: "string option"
  noun :: "string option"

definition Status0 :: "ErrorKind \<Rightarrow> Status" where
  "Status0 k = \<lparr>kind = k, msg = None, noun = None\<rparr>"

definition Status1 :: "ErrorKind \<Rightarrow> string \<Rightarrow> Status" where
  "Status1 k m = \<lparr>kind = k, msg = Some m, noun = None\<rparr>"

definition Status2 :: "ErrorKind \<Rightarrow> string \<Rightarrow> string \<Rightarrow> Status" where
  "Status2 k m n = \<lparr>kind = k, msg = Some m, noun = Some n\<rparr>"

definition bad :: "Status \<Rightarrow> bool" where
  "bad s = (kind s \<noteq> OK)"

text \<open>\<^verbatim>\<open>convertStatus\<close>, case by case in the order of the switch.\<close>

definition convertStatus :: "rocksdb_Status \<Rightarrow> Status" where
  "convertStatus s =
     (case code s of
        kOk \<Rightarrow> Status0 OK
      | kNotFound \<Rightarrow> Status0 NotFound
      | kCorruption \<Rightarrow> Status1 Failure ''corruption''
      | kNotSupported \<Rightarrow> Status0 NotImplemented
      | kInvalidArgument \<Rightarrow> Status2 Invalid ''RocksDB kInvalidArgument'' (ToString s)
      | kIOError \<Rightarrow> Status2 IOError ''RocksDB kIOError'' (ToString s)
      | kMergeInProgress \<Rightarrow> Status1 Failure ''merge in progress''
      | kIncomplete \<Rightarrow> Status1 Failure ''incomplete''
      | kShutdownInProgress \<Rightarrow> Status1 Failure ''shutdown in progress''
      | kTimedOut \<Rightarrow> Status1 Failure ''timed out''
      | kAborted \<Rightarrow> Status1 Failure ''aborted''
      | kOther n \<Rightarrow> Status2 Failure ''other reason'' (ToString s))"

subsection \<open>The memory size of the host\<close>

text \<open>
  The host as \<^verbatim>\<open>totalRAM\<close> sees it: what the \<open>n\<close>-th pair of \<^verbatim>\<open>sysconf\<close> queries answers
  (\<open>-1\<close> is the failure value of \<^verbatim>\<open>sysconf\<close>), how many pairs have been asked, and the
  function's static variable \<^verbatim>\<open>memoized\<close>, which starts at 0.
\<close>

record host =
  PHYS_PAGES :: "nat \<Rightarrow> long"
  PAGESIZE :: "nat \<Rightarrow> long"
  queries :: nat
  memoized :: size_t

text \<open>
  The fallback expression \<^verbatim>\<open>4<<30\<close>: both operands are \<^verbatim>\<open>int\<close>, so the shift is done in
  32 bits and the result converted to \<^verbatim>\<open>size_t\<close> afterwards.
\<close>

definition fallbackRAM :: size_t where
  "fallbackRAM = scast (push_bit 30 (4 :: cint))"

definition totalRAM :: "host \<Rightarrow> size_t \<times> host" where
  "totalRAM h =
     (if memoized h = 0 then
        let m = PHYS_PAGES h (queries h) * PAGESIZE h (queries h);
            h1 = h\<lparr>queries := Suc (queries h), memoized := m\<rparr>;
            h2 = (if memoized h1 = 0 then h1\<lparr>memoized := fallbackRAM\<rparr> else h1)
        in (memoized h2, h2)
      else (memoized h, h))"

text \<open>A host that has not been asked yet.\<close>

definition boot :: "(nat \<Rightarrow> long) \<Rightarrow> (nat \<Rightarrow> long) \<Rightarrow> host" where
  "boot pages pagesize = \<lparr>PHYS_PAGES = pages, PAGESIZE = pagesize, queries = 0, memoized = 0\<rparr>"

subsection \<open>Operating modes and tuning\<close>

datatype OpenMode = NORMAL | BULK_LOAD | READ_ONLY

datatype memtable_rep = SkipListRep | VectorRep

datatype compression_type = kNoCompression | kSnappyCompression | kLZ4Compression

text \<open>
  The fields of \<^verbatim>\<open>rocksdb::ColumnFamilyOptions\<close> that the tuning code writes. The table
  options (\<^verbatim>\<open>bbto\<close>) are kept as three fields. \<open>level_style_budget\<close> records the argument
  of the engine's own routine \<^verbatim>\<open>OptimizeLevelStyleCompaction\<close>, whose body is the engine's.
\<close>

record ColumnFamilyOptions =
  level_style_budget :: "size_t option"
  num_levels :: cint
  compression_per_level :: "compression_type list"
  compression :: compression_type
  bbto_format_version :: nat
  bbto_block_size :: size_t
  bbto_block_cache :: "size_t option"
  memtable_factory :: memtable_rep
  write_buffer_size :: size_t
  max_write_buffer_number :: cint
  min_write_buffer_number_to_merge :: cint
  level0_file_num_compaction_trigger :: cint
  level0_slowdown_writes_trigger :: cint
  level0_stop_writes_trigger :: cint
  source_compaction_factor :: cint

text \<open>\<^verbatim>\<open>ApplyColumnFamilyOptions\<close>; each \<^verbatim>\<open>totalRAM()\<close> call threads the host.\<close>

definition ApplyColumnFamilyOptions ::
  "OpenMode \<Rightarrow> ColumnFamilyOptions \<Rightarrow> host \<Rightarrow> ColumnFamilyOptions \<times> host" where
  "ApplyColumnFamilyOptions mode opts h =
     (let (ram1, h1) = totalRAM h;
          o1 = opts\<lparr>level_style_budget := Some (scast (push_bit 30 (1 :: cint))),
                    num_levels := 5,
                    compression_per_level := [],
                    compression := kLZ4Compression,
                    bbto_format_version := 2,
                    bbto_block_size := 64 * 1024,
                    bbto_block_cache := Some (ram1 div 4)\<rparr>
      in if mode = BULK_LOAD then
           let (ram2, h2) = totalRAM h1
           in (o1\<lparr>memtable_factory := VectorRep,
                   write_buffer_size := ram2 div 8,
                   max_write_buffer_number := 6,
                   min_write_buffer_number_to_merge := 1,
                   level0_file_num_compaction_trigger := push_bit 30 1,
                   level0_slowdown_writes_trigger := push_bit 30 1,
                   level0_stop_writes_trigger := push_bit 30 1,
                   source_compaction_factor := push_bit 30 1\<rparr>, h2)
         else (o1, h1))"

text \<open>
  \<^verbatim>\<open>rocksdb::Options\<close>: the column-family options it inherits, and the fields that
  \<^verbatim>\<open>ApplyDBOptions\<close>, \<^verbatim>\<open>Initialize\<close> and \<^verbatim>\<open>Open\<close> write. The two \<^verbatim>\<open>SetBackgroundThreads\<close>
  calls on \<^verbatim>\<open>opts.env\<close> are kept as the two \<open>env_threads\<close> fields.
\<close>

record Options =
  cf :: ColumnFamilyOptions
  max_open_files :: int
  max_background_compactions :: nat
  max_background_flushes :: nat
  env_threads_LOW :: nat
  env_threads_HIGH :: nat
  disable_auto_compactions :: bool
  disableDataSync :: bool
  create_if_missing :: bool
  error_if_exists :: bool

text \<open>\<^verbatim>\<open>ApplyDBOptions\<close>; \<open>hc\<close> is \<^verbatim>\<open>std::thread::hardware_concurrency()\<close>.\<close>

definition ApplyDBOptions :: "nat \<Rightarrow> OpenMode \<Rightarrow> Options \<Rightarrow> host \<Rightarrow> Options \<times> host" where
  "ApplyDBOptions hc mode opts h =
     (let (c, h1) = ApplyColumnFamilyOptions mode (cf opts) h;
          o1 = opts\<lparr>cf := c,
                    max_open_files := - 1,
                    max_background_compactions := min hc 16,
                    max_background_flushes := min hc 4\<rparr>;
          o2 = o1\<lparr>env_threads_LOW := max_background_compactions o1,
                  env_threads_HIGH := max_background_flushes o1\<rparr>
      in if mode = BULK_LOAD
         then (o2\<lparr>disable_auto_compactions := True, disableDataSync := True\<rparr>, h1)
         else (o2, h1))"

text \<open>\<^verbatim>\<open>rocksdb::WriteOptions\<close>: the two fields that the constructor of \<^verbatim>\<open>DB\<close> writes.\<close>

record WriteOptions =
  sync :: bool
  disableWAL :: bool

text \<open>
  Modelled from the spec: a default-constructed \<^verbatim>\<open>rocksdb::WriteOptions\<close>, whose declaration
  is the engine's. The specification has the single-key write of NORMAL mode, which leaves the
  object untouched, non-synchronous and with the write-ahead log enabled.
\<close>

definition WriteOptions_default :: WriteOptions where
  "WriteOptions_default = \<lparr>sync = False, disableWAL = False\<rparr>"

subsection \<open>The engine\<close>

text \<open>
  Modelled from the spec: the embedded engine (RocksDB), an external collaborator whose code
  is not in the repository. A column-family handle is an address. The engine keeps its
  column families (handle, name, options at creation), the entries of each family in
  ascending key order with distinct keys, and a log of the writing and releasing calls it
  received. \<open>reply\<close> is the status with which the engine answers a call: with the code
  \<open>kOk\<close> the call takes effect, with any other code it leaves the data as it was. An
  engine opened read-only refuses every write with its not-supported code, and an engine
  refuses to create a family under a name that it holds.
  \<open>move_outcomes\<close> are the outcomes that the moves of a new cursor over a family will meet.
  \<open>build_defaults\<close> is what a default-constructed \<^verbatim>\<open>rocksdb::Options\<close> of this engine holds.
\<close>

type_synonym handle = nat

type_synonym entries = "(string \<times> string) list"

datatype call =
    CompactRange handle
  | SyncWAL
  | Flush handle
  | DeleteHandle handle
  | DeleteDB
  | Get handle string
  | Put WriteOptions handle string string
  | Write WriteOptions "(handle \<times> string \<times> string) list"
  | CreateColumnFamily ColumnFamilyOptions string
  | NewIterator handle

record rocksdb_DB =
  families :: "(handle \<times> string \<times> ColumnFamilyOptions) list"
  table :: "handle \<Rightarrow> entries"
  reply :: "call \<Rightarrow> rocksdb_Status"
  read_only :: bool
  move_outcomes :: "handle \<Rightarrow> rocksdb_Status list"
  calls :: "call list"
  build_defaults :: Options

text \<open>
  Storing under a key in a list kept in ascending key order, a present key overwritten: a
  put into a family, and \<^verbatim>\<open>m[k] = v\<close> on a \<^verbatim>\<open>std::map\<close>.
\<close>

fun store :: "string \<Rightarrow> 'v \<Rightarrow> (string \<times> 'v) list \<Rightarrow> (string \<times> 'v) list" where
  "store k v [] = [(k, v)]"
| "store k v ((k', v') # es) =
     (if k < k' then (k, v) # (k', v') # es
      else if k = k' then (k, v) # es
      else (k', v') # store k v es)"

fun apply_puts ::
  "(handle \<times> string \<times> string) list \<Rightarrow> (handle \<Rightarrow> entries) \<Rightarrow> (handle \<Rightarrow> entries)" where
  "apply_puts [] t = t"
| "apply_puts ((h, k, v) # ps) t = apply_puts ps (t(h := store k v (t h)))"

definition called :: "call \<Rightarrow> rocksdb_DB \<Rightarrow> rocksdb_DB" where
  "called c e = e\<lparr>calls := calls e @ [c]\<rparr>"

definition answer :: "rocksdb_DB \<Rightarrow> call \<Rightarrow> rocksdb_Status" where
  "answer e c =
     (if read_only e
      then \<lparr>code = kNotSupported, ToString = ''Not implemented: read only mode''\<rparr>
      else reply e c)"

definition rocksdb_Get :: "handle \<Rightarrow> string \<Rightarrow> rocksdb_DB \<Rightarrow> rocksdb_Status \<times> string" where
  "rocksdb_Get h k e =
     (if \<not> ok (reply e (Get h k)) then (reply e (Get h k), [])
      else case map_of (table e h) k of
             None \<Rightarrow> (\<lparr>code = kNotFound, ToString = ''NotFound: ''\<rparr>, [])
           | Some v \<Rightarrow> (Status_OK, v))"

definition rocksdb_Put ::
  "WriteOptions \<Rightarrow> handle \<Rightarrow> string \<Rightarrow> string \<Rightarrow> rocksdb_DB
   \<Rightarrow> rocksdb_Status \<times> rocksdb_DB" where
  "rocksdb_Put w h k v e =
     (let c = Put w h k v; e1 = called c e
      in if \<not> ok (answer e c) then (answer e c, e1)
         else (Status_OK, e1\<lparr>table := (table e1)(h := store k v (table e1 h))\<rparr>))"

text \<open>A batch write is all or nothing.\<close>

definition rocksdb_Write ::
  "WriteOptions \<Rightarrow> (handle \<times> string \<times> string) list \<Rightarrow> rocksdb_DB
   \<Rightarrow> rocksdb_Status \<times> rocksdb_DB" where
  "rocksdb_Write w ps e =
     (let c = Write w ps; e1 = called c e
      in if \<not> ok (answer e c) then (answer e c, e1)
         else (Status_OK, e1\<lparr>table := apply_puts ps (table e1)\<rparr>))"

text \<open>
  A new family gets an address that no family of the engine has. The engine keeps the names
  of its families unique (collection names are unique within a database): it refuses, with
  its invalid-argument code, to create a family under a name that one of its families has.
\<close>

definition fresh_handle :: "rocksdb_DB \<Rightarrow> handle" where
  "fresh_handle e = Suc (fold max (map fst (families e)) 0)"

definition rocksdb_CreateColumnFamily ::
  "ColumnFamilyOptions \<Rightarrow> string \<Rightarrow> rocksdb_DB
   \<Rightarrow> rocksdb_Status \<times> handle option \<times> rocksdb_DB" where
  "rocksdb_CreateColumnFamily opts name e =
     (let c = CreateColumnFamily opts name; e1 = called c e
      in if \<not> ok (answer e c) then (answer e c, None, e1)
         else if name \<in> set (map (\<lambda>f. fst (snd f)) (families e))
         then (\<lparr>code = kInvalidArgument,
                 ToString = ''Invalid argument: Column family already exists''\<rparr>, None, e1)
         else (Status_OK, Some (fresh_handle e),
               e1\<lparr>families := families e1 @ [(fresh_handle e, name, opts)],
                  table := (table e1)(fresh_handle e := [])\<rparr>))"

text \<open>
  Modelled from the spec: the engine's cursor (\<^verbatim>\<open>rocksdb::Iterator\<close>) over one family. It
  holds the entries of the family in ascending key order, the entries from the current one
  on (none when it is not on an entry), its recorded status, and the outcomes of its coming
  moves, first move first (a move beyond the list succeeds). A move that fails records the
  error and leaves the cursor on no entry.
\<close>

record rocksdb_Iterator =
  snapshot :: entries
  rest :: entries
  it_status :: rocksdb_Status
  outcomes :: "rocksdb_Status list"

definition it_Valid :: "rocksdb_Iterator \<Rightarrow> bool" where
  "it_Valid c = (rest c \<noteq> [])"

definition move :: "entries \<Rightarrow> rocksdb_Iterator \<Rightarrow> rocksdb_Iterator" where
  "move target c =
     (case outcomes c of
        [] \<Rightarrow> c\<lparr>rest := target\<rparr>
      | s # ss \<Rightarrow> if ok s then c\<lparr>rest := target, outcomes := ss\<rparr>
                  else c\<lparr>rest := [], it_status := s, outcomes := ss\<rparr>)"

definition it_SeekToFirst :: "rocksdb_Iterator \<Rightarrow> rocksdb_Iterator" where
  "it_SeekToFirst c = move (snapshot c) c"

definition it_Seek :: "string \<Rightarrow> rocksdb_Iterator \<Rightarrow> rocksdb_Iterator" where
  "it_Seek k c = move (dropWhile (\<lambda>e. fst e < k) (snapshot c)) c"

definition it_Next :: "rocksdb_Iterator \<Rightarrow> rocksdb_Iterator" where
  "it_Next c = move (tl (rest c)) c"

definition it_key :: "rocksdb_Iterator \<Rightarrow> string" where
  "it_key c = (case rest c of [] \<Rightarrow> [] | e # es \<Rightarrow> fst e)"

definition it_value :: "rocksdb_Iterator \<Rightarrow> string" where
  "it_value c = (case rest c of [] \<Rightarrow> [] | e # es \<Rightarrow> snd e)"

text \<open>\<^verbatim>\<open>NewIterator\<close> answers a null pointer when the engine's reply to the call is an error.\<close>

definition rocksdb_NewIterator :: "handle \<Rightarrow> rocksdb_DB \<Rightarrow> rocksdb_Iterator option" where
  "rocksdb_NewIterator h e =
     (if \<not> ok (reply e (NewIterator h)) then None
      else Some \<lparr>snapshot = table e h, rest = [], it_status = Status_OK,
                  outcomes = move_outcomes e h\<rparr>)"

subsection \<open>Iterator\<close>

text \<open>
  The members \<^verbatim>\<open>iter_\<close>, \<^verbatim>\<open>key_\<close> and \<^verbatim>\<open>value_\<close> (a name cannot end in an underscore
  here, so a member is named by its class). The strings start empty.
\<close>

record Iterator =
  Iterator_iter :: rocksdb_Iterator
  Iterator_key :: string
  Iterator_value :: string

text \<open>The two assignments under \<^verbatim>\<open>if (iter_->Valid())\<close>, in the constructor and in \<^verbatim>\<open>next\<close>.\<close>

definition capture :: "Iterator \<Rightarrow> Iterator" where
  "capture it =
     (if it_Valid (Iterator_iter it)
      then it\<lparr>Iterator_key := it_key (Iterator_iter it),
              Iterator_value := it_value (Iterator_iter it)\<rparr>
      else it)"

definition Iterator_ctor :: "rocksdb_Iterator \<Rightarrow> Iterator" where
  "Iterator_ctor iter = capture \<lparr>Iterator_iter = iter, Iterator_key = [], Iterator_value = []\<rparr>"

definition valid :: "Iterator \<Rightarrow> bool" where
  "valid it = it_Valid (Iterator_iter it)"

definition key :: "Iterator \<Rightarrow> string" where
  "key it = Iterator_key it"

definition "value" :: "Iterator \<Rightarrow> string" where
  "value it = Iterator_value it"

definition "next" :: "Iterator \<Rightarrow> Status \<times> Iterator" where
  "next it =
     (if \<not> ok (it_status (Iterator_iter it))
      then (convertStatus (it_status (Iterator_iter it)), it)
      else let it1 = it\<lparr>Iterator_iter := it_Next (Iterator_iter it)\<rparr>
           in if \<not> ok (it_status (Iterator_iter it1))
              then (convertStatus (it_status (Iterator_iter it1)), it1)
              else (Status0 OK, capture it1))"

subsection \<open>Reader\<close>

text \<open>
  A \<^verbatim>\<open>Reader\<close> holds the pointer \<^verbatim>\<open>db_\<close> only; the engine it points to is the argument
  \<open>e\<close>. The output parameter is the second component: \<open>None\<close> where the source leaves
  it unassigned.
\<close>

definition Reader_get :: "rocksdb_DB \<Rightarrow> handle \<Rightarrow> string \<Rightarrow> Status \<times> string" where
  "Reader_get e coll k = (let (s, v_tmp) = rocksdb_Get coll k e in (convertStatus s, v_tmp))"

definition Reader_iterator :: "rocksdb_DB \<Rightarrow> handle \<Rightarrow> string \<Rightarrow> Status \<times> Iterator option" where
  "Reader_iterator e coll k =
     (case rocksdb_NewIterator coll e of
        None \<Rightarrow> (Status1 Failure ''rocksdb::DB::NewIterator()'', None)
      | Some rit0 \<Rightarrow>
          let rit = (if k = [] then it_SeekToFirst rit0 else it_Seek k rit0)
          in if \<not> ok (it_status rit) then (convertStatus (it_status rit), None)
             else (Status0 OK, Some (Iterator_ctor rit)))"

subsection \<open>WriteBatch\<close>

text \<open>
  \<open>WriteBatch_wb\<close> is the member \<^verbatim>\<open>wb_\<close>, the engine's batch object: the staged puts,
  oldest first. \<open>WriteBatch_batch_write_options\<close> is the member \<^verbatim>\<open>batch_write_options_\<close>,
  a reference to the field of that name of the \<^verbatim>\<open>DB\<close>, which no member function of \<^verbatim>\<open>DB\<close>
  assigns after the constructor. \<^verbatim>\<open>commit\<close> returns the batch as well, as it leaves it.
\<close>

record WriteBatch =
  WriteBatch_wb :: "(handle \<times> string \<times> string) list"
  WriteBatch_batch_write_options :: WriteOptions

definition WriteBatch_ctor :: "WriteOptions \<Rightarrow> WriteBatch" where
  "WriteBatch_ctor batch_write_options =
     \<lparr>WriteBatch_wb = [], WriteBatch_batch_write_options = batch_write_options\<rparr>"

definition WriteBatch_put ::
  "WriteBatch \<Rightarrow> handle \<Rightarrow> string \<Rightarrow> string \<Rightarrow> Status \<times> WriteBatch" where
  "WriteBatch_put wb coll k v =
     (Status0 OK, wb\<lparr>WriteBatch_wb := WriteBatch_wb wb @ [(coll, k, v)]\<rparr>)"

definition commit :: "WriteBatch \<Rightarrow> rocksdb_DB \<Rightarrow> Status \<times> WriteBatch \<times> rocksdb_DB" where
  "commit wb e =
     (let (s, e1) = rocksdb_Write (WriteBatch_batch_write_options wb) (WriteBatch_wb wb) e
      in (convertStatus s, wb, e1))"

subsection \<open>DB\<close>

text \<open>
  The members \<^verbatim>\<open>coll2handle_\<close> (a \<^verbatim>\<open>std::map\<close>: a list in ascending key order), \<^verbatim>\<open>mode_\<close>,
  \<^verbatim>\<open>write_options_\<close> and \<^verbatim>\<open>batch_write_options_\<close>. The engine that \<^verbatim>\<open>db_\<close> points to is an
  argument of each operation.
\<close>

record DB =
  DB_coll2handle :: "(string \<times> handle) list"
  DB_mode :: OpenMode
  DB_write_options :: WriteOptions
  DB_batch_write_options :: WriteOptions

definition DB_ctor :: "(string \<times> handle) list \<Rightarrow> OpenMode \<Rightarrow> DB" where
  "DB_ctor coll2handle mode =
     (let d = \<lparr>DB_coll2handle = coll2handle, DB_mode = mode,
                DB_write_options = WriteOptions_default,
                DB_batch_write_options = WriteOptions_default\<rparr>
      in if DB_mode d = BULK_LOAD
         then d\<lparr>DB_write_options := (DB_write_options d)\<lparr>disableWAL := True\<rparr>,
                DB_batch_write_options := (DB_batch_write_options d)\<lparr>disableWAL := True\<rparr>\<rparr>
         else d\<lparr>DB_batch_write_options := (DB_batch_write_options d)\<lparr>sync := True\<rparr>\<rparr>)"

text \<open>The three loops of the destructor over \<^verbatim>\<open>coll2handle_\<close>, each in key order.\<close>

fun compact_each :: "(string \<times> handle) list \<Rightarrow> rocksdb_DB \<Rightarrow> rocksdb_DB" where
  "compact_each [] e = e"
| "compact_each (p # ps) e = compact_each ps (called (CompactRange (snd p)) e)"

fun flush_each :: "(string \<times> handle) list \<Rightarrow> rocksdb_DB \<Rightarrow> rocksdb_DB" where
  "flush_each [] e = e"
| "flush_each (p # ps) e = flush_each ps (called (Flush (snd p)) e)"

fun delete_each :: "(string \<times> handle) list \<Rightarrow> rocksdb_DB \<Rightarrow> rocksdb_DB" where
  "delete_each [] e = e"
| "delete_each (p # ps) e = delete_each ps (called (DeleteHandle (snd p)) e)"

text \<open>\<^verbatim>\<open>~DB\<close>. The destructor does not look at the answer of any of its calls.\<close>

definition DB_dtor :: "DB \<Rightarrow> rocksdb_DB \<Rightarrow> rocksdb_DB" where
  "DB_dtor d e =
     (let e1 = (if DB_mode d = BULK_LOAD then compact_each (DB_coll2handle d) e else e);
          e2 = (if DB_mode d \<noteq> READ_ONLY
                then flush_each (DB_coll2handle d) (called SyncWAL e1) else e1);
          e3 = delete_each (DB_coll2handle d) e2
      in called DeleteDB e3)"

definition collection :: "DB \<Rightarrow> string \<Rightarrow> Status \<times> handle option" where
  "collection d name =
     (case map_of (DB_coll2handle d) name of
        Some p \<Rightarrow> (Status0 OK, Some p)
      | None \<Rightarrow> (Status2 NotFound ''column family does not exist'' name, None))"

text \<open>
  \<^verbatim>\<open>create_collection\<close>. The result is \<open>None\<close> where \<^verbatim>\<open>assert(handle != nullptr)\<close> fails.
\<close>

definition create_collection ::
  "DB \<Rightarrow> string \<Rightarrow> rocksdb_DB \<Rightarrow> host \<Rightarrow> (Status \<times> DB \<times> rocksdb_DB \<times> host) option" where
  "create_collection d name e h =
     (if map_of (DB_coll2handle d) name \<noteq> None
      then Some (Status2 Exists ''column family already exists'' name, d, e, h)
      else let (colopts, h1) = ApplyColumnFamilyOptions (DB_mode d) (cf (build_defaults e)) h;
               (s, handle, e1) = rocksdb_CreateColumnFamily colopts name e
           in if \<not> ok s then Some (convertStatus s, d, e1, h1)
              else case handle of
                     None \<Rightarrow> None
                   | Some hnd \<Rightarrow>
                       Some (Status0 OK, d\<lparr>DB_coll2handle := store name hnd (DB_coll2handle d)\<rparr>,
                             e1, h1))"

definition begin_writes :: "DB \<Rightarrow> Status \<times> WriteBatch" where
  "begin_writes d = (Status0 OK, WriteBatch_ctor (DB_batch_write_options d))"

definition DB_get :: "rocksdb_DB \<Rightarrow> handle \<Rightarrow> string \<Rightarrow> Status \<times> string" where
  "DB_get e coll k = (let (s, v_tmp) = rocksdb_Get coll k e in (convertStatus s, v_tmp))"

definition DB_put :: "DB \<Rightarrow> handle \<Rightarrow> string \<Rightarrow> string \<Rightarrow> rocksdb_DB \<Rightarrow> Status \<times> rocksdb_DB" where
  "DB_put d coll k v e =
     (let (s, e1) = rocksdb_Put (DB_write_options d) coll k v e in (convertStatus s, e1))"

subsection \<open>Creating and opening a database\<close>

text \<open>
  Modelled from the spec: the engine's entry points that work on a path. \<open>disk\<close> is the
  database that a path holds, if any, and \<open>blank\<close> a newly created one. \<open>exists_error\<close>
  is the engine's answer to opening, with \<^verbatim>\<open>error_if_exists\<close>, a path that holds a database;
  \<open>missing_error\<close> its answer to opening without \<^verbatim>\<open>create_if_missing\<close>, or to listing the
  families of, a path that holds none; \<open>open_fault\<close> the outcome of the file access that
  opening a path needs. \<open>hardware_concurrency\<close> and \<open>default_Options\<close> are what
  \<^verbatim>\<open>std::thread::hardware_concurrency()\<close> and a default-constructed \<^verbatim>\<open>rocksdb::Options\<close> give.
\<close>

record env =
  disk :: "string \<Rightarrow> rocksdb_DB option"
  blank :: rocksdb_DB
  exists_error :: rocksdb_Status
  missing_error :: rocksdb_Status
  open_fault :: "string \<Rightarrow> rocksdb_Status"
  hardware_concurrency :: nat
  default_Options :: Options

definition rocksdb_DB_Open ::
  "Options \<Rightarrow> string \<Rightarrow> env \<Rightarrow> rocksdb_Status \<times> rocksdb_DB option \<times> env" where
  "rocksdb_DB_Open options dbPath v =
     (if \<not> ok (open_fault v dbPath) then (open_fault v dbPath, None, v)
      else case disk v dbPath of
             Some img \<Rightarrow>
               if error_if_exists options then (exists_error v, None, v)
               else (Status_OK, Some img, v)
           | None \<Rightarrow>
               if create_if_missing options
               then (Status_OK, Some (blank v), v\<lparr>disk := (disk v)(dbPath \<mapsto> blank v)\<rparr>)
               else (missing_error v, None, v))"

definition rocksdb_ListColumnFamilies ::
  "Options \<Rightarrow> string \<Rightarrow> env \<Rightarrow> rocksdb_Status \<times> string list" where
  "rocksdb_ListColumnFamilies options dbPath v =
     (case disk v dbPath of
        None \<Rightarrow> (missing_error v, [])
      | Some img \<Rightarrow> (Status_OK, map (\<lambda>f. fst (snd f)) (families img)))"

text \<open>
  Opening with descriptors, read-write or (\<open>ro\<close>) read-only: one handle for each family,
  in the order of the families.
\<close>

definition rocksdb_DB_Open_cf ::
  "bool \<Rightarrow> Options \<Rightarrow> string \<Rightarrow> (string \<times> ColumnFamilyOptions) list \<Rightarrow> env
   \<Rightarrow> rocksdb_Status \<times> handle list \<times> rocksdb_DB option" where
  "rocksdb_DB_Open_cf ro options dbPath column_families v =
     (if \<not> ok (open_fault v dbPath) then (open_fault v dbPath, [], None)
      else case disk v dbPath of
             None \<Rightarrow> (missing_error v, [], None)
           | Some img \<Rightarrow> (Status_OK, map fst (families img), Some (img\<lparr>read_only := ro\<rparr>)))"

text \<open>
  \<^verbatim>\<open>Initialize\<close>. The result is \<open>None\<close> where \<^verbatim>\<open>assert(rawdb != nullptr)\<close> fails. The branch
  under \<^verbatim>\<open>if (!db)\<close> cannot run, since \<^verbatim>\<open>new\<close> does not return a null pointer.
\<close>

definition Initialize ::
  "string \<Rightarrow> env \<Rightarrow> host \<Rightarrow> (Status \<times> (DB \<times> rocksdb_DB) option \<times> env \<times> host) option" where
  "Initialize dbPath v h =
     (let (o1, h1) = ApplyDBOptions (hardware_concurrency v) NORMAL (default_Options v) h;
          options = o1\<lparr>create_if_missing := True, error_if_exists := True\<rparr>;
          (s, rawdb, v1) = rocksdb_DB_Open options dbPath v
      in if \<not> ok s then Some (convertStatus s, None, v1, h1)
         else case rawdb of
                None \<Rightarrow> None
              | Some e \<Rightarrow> Some (Status0 OK, Some (DB_ctor [] NORMAL, e), v1, h1))"

text \<open>The loop of \<^verbatim>\<open>Open\<close> that builds one descriptor for each family name.\<close>

fun describe_each ::
  "OpenMode \<Rightarrow> ColumnFamilyOptions \<Rightarrow> string list \<Rightarrow> host
   \<Rightarrow> (string \<times> ColumnFamilyOptions) list \<times> host" where
  "describe_each mode dflt [] h = ([], h)"
| "describe_each mode dflt (nm # nms) h =
     (let (colopts, h1) = ApplyColumnFamilyOptions mode dflt h;
          (cfds, h2) = describe_each mode dflt nms h1
      in ((nm, colopts) # cfds, h2))"

text \<open>
  The loop of \<^verbatim>\<open>Open\<close> that fills the map, \<open>i\<close> from 0 below the number of descriptors
  (the engine above answers one handle for each of them).
\<close>

definition fill :: "string list \<Rightarrow> handle list \<Rightarrow> nat \<Rightarrow> (string \<times> handle) list" where
  "fill column_family_names column_family_handles n =
     fold (\<lambda>i m. store (column_family_names ! i) (column_family_handles ! i) m) [0..<n] []"

text \<open>\<^verbatim>\<open>Open\<close>, with \<open>None\<close> and the branch under \<^verbatim>\<open>if (!db)\<close> as in \<^verbatim>\<open>Initialize\<close>.\<close>

definition Open ::
  "string \<Rightarrow> OpenMode \<Rightarrow> env \<Rightarrow> host \<Rightarrow> (Status \<times> (DB \<times> rocksdb_DB) option \<times> host) option" where
  "Open dbPath mode v h =
     (let (o1, h1) = ApplyDBOptions (hardware_concurrency v) mode (default_Options v) h;
          options = o1\<lparr>create_if_missing := False\<rparr>;
          (s, column_family_names) = rocksdb_ListColumnFamilies options dbPath v
      in if \<not> ok s then Some (convertStatus s, None, h1)
         else
           let (column_families, h2) =
                 describe_each mode (cf (default_Options v)) column_family_names h1;
               (s2, column_family_handles, rawdb) =
                 rocksdb_DB_Open_cf (mode = READ_ONLY) options dbPath column_families v
           in if \<not> ok s2 then Some (convertStatus s2, None, h2)
              else case rawdb of
                     None \<Rightarrow> None
                   | Some e \<Rightarrow>
                       Some (Status0 OK,
                             Some (DB_ctor (fill column_family_names column_family_handles
                                             (length column_families)) mode, e),
                             h2))"

subsection \<open>Clients and sample values\<close>

text \<open>The codes that reach the \<^verbatim>\<open>default\<close> label of \<^verbatim>\<open>convertStatus\<close>.\<close>

definition unlisted :: "Code \<Rightarrow> bool" where
  "unlisted c = (case c of kOther n \<Rightarrow> True | _ \<Rightarrow> False)"

text \<open>A client that stages a list of puts in a batch, one \<^verbatim>\<open>put\<close> call each.\<close>

fun put_each :: "(handle \<times> string \<times> string) list \<Rightarrow> WriteBatch \<Rightarrow> WriteBatch" where
  "put_each [] wb = wb"
| "put_each ((coll, k, v) # ps) wb = put_each ps (snd (WriteBatch_put wb coll k v))"

text \<open>A cursor on the first of two entries, and an error of the engine.\<close>

definition cursor0 :: rocksdb_Iterator where
  "cursor0 = \<lparr>snapshot = [(''a'', ''1''), (''b'', ''2'')], rest = [(''a'', ''1''), (''b'', ''2'')],
              it_status = Status_OK, outcomes = []\<rparr>"

definition io_error :: rocksdb_Status where
  "io_error = \<lparr>code = kIOError, ToString = ''IO error: ''\<rparr>"

text \<open>
  Sample values for the closed examples: the options of a default-constructed
  \<^verbatim>\<open>rocksdb::Options\<close>, an engine that holds the default family and answers every call with
  success, and a host with a million pages of 4096 bytes.
\<close>

definition Options0 :: Options where
  "Options0 =
     \<lparr>cf = \<lparr>level_style_budget = None, num_levels = 7, compression_per_level = [],
             compression = kSnappyCompression, bbto_format_version = 0,
             bbto_block_size = 4096, bbto_block_cache = None, memtable_factory = SkipListRep,
             write_buffer_size = 4194304, max_write_buffer_number = 2,
             min_write_buffer_number_to_merge = 1, level0_file_num_compaction_trigger = 4,
             level0_slowdown_writes_trigger = 20, level0_stop_writes_trigger = 24,
             source_compaction_factor = 1\<rparr>,
       max_open_files = 5000, max_background_compactions = 1, max_background_flushes = 1,
       env_threads_LOW = 1, env_threads_HIGH = 1, disable_auto_compactions = False,
       disableDataSync = False, create_if_missing = False, error_if_exists = False\<rparr>"

definition engine0 :: rocksdb_DB where
  "engine0 =
     \<lparr>families = [(1, ''default'', cf Options0)], table = (\<lambda>h. []),
       reply = (\<lambda>c. Status_OK), read_only = False, move_outcomes = (\<lambda>h. []), calls = [],
       build_defaults = Options0\<rparr>"

definition host0 :: host where
  "host0 = boot (\<lambda>n. 1048576) (\<lambda>n. 4096)"

text \<open>
  The value that the staged puts of a batch hold for a key of a collection: that of the last
  put to it, if any.
\<close>

fun staged_last ::
  "(handle \<times> string \<times> string) list \<Rightarrow> handle \<Rightarrow> string \<Rightarrow> string option" where
  "staged_last [] h k = None"
| "staged_last ((h', k', v) # ps) h k =
     (case staged_last ps h k of
        Some w \<Rightarrow> Some w
      | None \<Rightarrow> if h' = h \<and> k' = k then Some v else None)"

text \<open>A batch of a NORMAL database with puts to the keys x and y of collection 1 staged.\<close>

definition batch0 :: WriteBatch where
  "batch0 =
     put_each [(1, ''x'', ''1''), (1, ''y'', ''2'')] (snd (begin_writes (DB_ctor [] NORMAL)))"

text \<open>The options that \<^verbatim>\<open>create_collection\<close> passes to the engine.\<close>

definition colopts_for :: "DB \<Rightarrow> rocksdb_DB \<Rightarrow> host \<Rightarrow> ColumnFamilyOptions" where
  "colopts_for d e h = fst (ApplyColumnFamilyOptions (DB_mode d) (cf (build_defaults e)) h)"

text \<open>The status with which the engine answers the call that \<^verbatim>\<open>create_collection\<close> makes.\<close>

definition create_answer :: "DB \<Rightarrow> string \<Rightarrow> rocksdb_DB \<Rightarrow> host \<Rightarrow> rocksdb_Status" where
  "create_answer d name e h = fst (rocksdb_CreateColumnFamily (colopts_for d e h) name e)"

text \<open>The number of entries of a map under a name, and of families of the engine under it.\<close>

definition named :: "string \<Rightarrow> (string \<times> 'v) list \<Rightarrow> nat" where
  "named name m = length (filter (\<lambda>p. fst p = name) m)"

definition families_named :: "string \<Rightarrow> rocksdb_DB \<Rightarrow> nat" where
  "families_named name e = length (filter (\<lambda>f. fst (snd f) = name) (families e))"

text \<open>A second \<^verbatim>\<open>create_collection\<close> call, on what a first one returned.\<close>

definition after ::
  "(Status \<times> DB \<times> rocksdb_DB \<times> host) option \<Rightarrow> string
   \<Rightarrow> (Status \<times> DB \<times> rocksdb_DB \<times> host) option" where
  "after r name =
     (case r of None \<Rightarrow> None | Some (s, d, e, h) \<Rightarrow> create_collection d name e h)"

text \<open>
  A sample environment: the path db holds a database, no other path does, and the engine
  reports the two conditions as RocksDB does, with its invalid-argument and I/O error codes.
\<close>

definition env0 :: env where
  "env0 =
     \<lparr>disk = (\<lambda>p. if p = ''db'' then Some engine0 else None),
       blank = engine0,
       exists_error =
         \<lparr>code = kInvalidArgument,
           ToString = ''Invalid argument: db: exists (error_if_exists is true)''\<rparr>,
       missing_error = \<lparr>code = kIOError, ToString = ''IO error: No such file or directory''\<rparr>,
       open_fault = (\<lambda>p. Status_OK),
       hardware_concurrency = 8,
       default_Options = Options0\<rparr>"

text \<open>
  A client that walks an iterator to the end: while \<^verbatim>\<open>valid()\<close>, it takes \<^verbatim>\<open>key()\<close> and calls
  \<^verbatim>\<open>next()\<close>, and it stops at the first error. The result is the list of the keys it saw.
  Each \<^verbatim>\<open>next()\<close> without error leaves the cursor with fewer entries ahead, so the walk ends.
\<close>

function scan :: "Iterator \<Rightarrow> string list" where
  "scan it =
     (if valid it
      then key it # (if bad (fst (next it)) then [] else scan (snd (next it)))
      else [])"
  by pat_completeness auto
termination
  by (relation "measure (\<lambda>it. length (rest (Iterator_iter it)))")
    (auto simp: next_def valid_def it_Valid_def it_Next_def move_def capture_def Let_def
      bad_def convertStatus_def ok_def Status0_def Status1_def Status2_def
      split: if_splits list.splits Code.splits)

declare scan.simps [simp del]

text \<open>The walk on what \<^verbatim>\<open>Reader::iterator\<close> returned: no keys when it returned an error.\<close>

definition visited :: "Status \<times> Iterator option \<Rightarrow> string list" where
  "visited r = (case snd r of None \<Rightarrow> [] | Some it \<Rightarrow> if bad (fst r) then [] else scan it)"

text \<open>An iterator whose key, while it is valid, is the key of the cursor's entry.\<close>

definition synced :: "Iterator \<Rightarrow> bool" where
  "synced it = (valid it \<longrightarrow> key it = it_key (Iterator_iter it))"

text \<open>The entries of a family from the first one whose key is not below \<open>k\<close>.\<close>

definition from_key :: "string \<Rightarrow> entries \<Rightarrow> entries" where
  "from_key k es = dropWhile (\<lambda>e. fst e < k) es"

text \<open>
  The sample engine after three single-key puts into collection 1, of the keys c, a and b
  in this order.
\<close>

definition engine_abc :: rocksdb_DB where
  "engine_abc =
     snd (DB_put (DB_ctor [] NORMAL) 1 ''b'' ''2''
       (snd (DB_put (DB_ctor [] NORMAL) 1 ''a'' ''1''
         (snd (DB_put (DB_ctor [] NORMAL) 1 ''c'' ''3'' engine0)))))"

section \<open>Properties\<close>

subsection \<open>Status mapping\<close>

lemma bad_convertStatus: "bad (convertStatus s) = (\<not> ok s)"
  by (cases "code s")
    (simp_all add: convertStatus_def bad_def ok_def Status0_def Status1_def Status2_def)

lemma convertStatus_not_Exists: "kind (convertStatus s) \<noteq> Exists"
  by (cases "code s") (simp_all add: convertStatus_def Status0_def Status1_def Status2_def)

text \<open>
  C4, as stated, fails: the not-found code of the engine is one of the listed error codes, and
  \<^verbatim>\<open>convertStatus\<close> maps it to the bare kind \<open>NotFound\<close>, with no message and no diagnostic
  string (the source calls \<^verbatim>\<open>Status::NotFound()\<close> without arguments).
\<close>

theorem convertStatus_message_counterexample:
  "kind (convertStatus \<lparr>code = kNotFound, ToString = ''NotFound: ''\<rparr>) = NotFound
   \<and> msg (convertStatus \<lparr>code = kNotFound, ToString = ''NotFound: ''\<rparr>) = None
   \<and> noun (convertStatus \<lparr>code = kNotFound, ToString = ''NotFound: ''\<rparr>) = None"
  by (simp add: convertStatus_def Status0_def)

text \<open>
  C4, amended: \<^verbatim>\<open>convertStatus\<close> is a total function of the engine's status into the taxonomy.
  The kind depends on the code alone: the success code gives \<open>OK\<close> and no other code does,
  not-found gives \<open>NotFound\<close>, not-supported \<open>NotImplemented\<close>, invalid-argument
  \<open>Invalid\<close>, I/O error \<open>IOError\<close>, every other code \<open>Failure\<close>. A code that the
  switch does not list gives \<open>Failure\<close> with the message "other reason" and the engine's
  diagnostic string, and only such a code does. A message is attached for every error code
  except not-found and not-supported, and the diagnostic string for invalid-argument, I/O
  error and the unlisted codes only.
\<close>

theorem convertStatus_total:
  "kind (convertStatus s) =
     (case code s of
        kOk \<Rightarrow> OK | kNotFound \<Rightarrow> NotFound | kNotSupported \<Rightarrow> NotImplemented
      | kInvalidArgument \<Rightarrow> Invalid | kIOError \<Rightarrow> IOError | _ \<Rightarrow> Failure)
   \<and> (kind (convertStatus s) = OK) = (code s = kOk)
   \<and> unlisted (code s) = (convertStatus s = Status2 Failure ''other reason'' (ToString s))
   \<and> (msg (convertStatus s) = None) = (code s \<in> {kOk, kNotFound, kNotSupported})
   \<and> noun (convertStatus s) =
       (if code s \<in> {kInvalidArgument, kIOError} \<or> unlisted (code s)
        then Some (ToString s) else None)"
  by (cases "code s")
    (simp_all add: convertStatus_def Status0_def Status1_def Status2_def unlisted_def)

subsection \<open>The memory size of the host\<close>

lemma fallbackRAM_zero: "fallbackRAM = 0"
  by (simp add: fallbackRAM_def)

lemma totalRAM_cached: "memoized h \<noteq> 0 \<Longrightarrow> totalRAM h = (memoized h, h)"
  by (simp add: totalRAM_def)

lemma totalRAM_first:
  "memoized h = 0 \<Longrightarrow> PHYS_PAGES h (queries h) * PAGESIZE h (queries h) \<noteq> 0 \<Longrightarrow>
   totalRAM (snd (totalRAM h)) = totalRAM h \<and> queries (snd (totalRAM h)) = Suc (queries h)"
  by (simp add: totalRAM_def Let_def)

text \<open>
  C6 at its failing inputs. When the query fails (\<^verbatim>\<open>sysconf\<close> answers \<open>-1\<close> for the page
  count, the page size being 4096), the product is \<open>2^64 - 4096\<close>, which is not zero, and
  that is the result, not 4 GiB (\<open>4294967296\<close>). When the query answers zero pages, the
  fallback \<^verbatim>\<open>4<<30\<close> is computed in 32 bits and is 0: the result is 0, \<^verbatim>\<open>memoized\<close> stays 0, a
  second call asks the host again, and when the host then answers a million pages the second
  call returns another value than the first.
\<close>

theorem totalRAM_fallback_slip:
  "fst (totalRAM (boot (\<lambda>n. - 1) (\<lambda>n. 4096))) = 18446744073709547520
   \<and> fst (totalRAM (boot (\<lambda>n. 0) (\<lambda>n. 4096))) = 0
   \<and> memoized (snd (totalRAM (boot (\<lambda>n. 0) (\<lambda>n. 4096)))) = 0
   \<and> queries (snd (totalRAM (snd (totalRAM (boot (\<lambda>n. 0) (\<lambda>n. 4096)))))) = 2
   \<and> fst (totalRAM (boot (\<lambda>n. if n = 0 then 0 else 1048576) (\<lambda>n. 4096))) = 0
   \<and> fst (totalRAM (snd (totalRAM (boot (\<lambda>n. if n = 0 then 0 else 1048576) (\<lambda>n. 4096)))))
       = 4294967296"
  by (simp add: totalRAM_def boot_def fallbackRAM_def Let_def)

subsection \<open>Shutdown\<close>

lemma compact_each_calls:
  "compact_each ps e = e\<lparr>calls := calls e @ map (\<lambda>p. CompactRange (snd p)) ps\<rparr>"
  by (induction ps arbitrary: e) (simp_all add: called_def)

lemma flush_each_calls:
  "flush_each ps e = e\<lparr>calls := calls e @ map (\<lambda>p. Flush (snd p)) ps\<rparr>"
  by (induction ps arbitrary: e) (simp_all add: called_def)

lemma delete_each_calls:
  "delete_each ps e = e\<lparr>calls := calls e @ map (\<lambda>p. DeleteHandle (snd p)) ps\<rparr>"
  by (induction ps arbitrary: e) (simp_all add: called_def)

text \<open>
  C1: the calls that the destructor adds to the engine's log are, in this order: for a
  BULK_LOAD database one compaction for each collection of the map; then, unless the database
  is READ_ONLY, the sync of the write-ahead log and one flush for each collection; then the
  release of each collection handle; and last the release of the engine. For a READ_ONLY
  database the log grows by the releases only.
\<close>

theorem DB_dtor_order:
  "calls (DB_dtor d e) =
     calls e
     @ (if DB_mode d = BULK_LOAD
        then map (\<lambda>p. CompactRange (snd p)) (DB_coll2handle d) else [])
     @ (if DB_mode d = READ_ONLY
        then [] else SyncWAL # map (\<lambda>p. Flush (snd p)) (DB_coll2handle d))
     @ map (\<lambda>p. DeleteHandle (snd p)) (DB_coll2handle d)
     @ [DeleteDB]
   \<and> calls (DB_dtor (d\<lparr>DB_mode := READ_ONLY\<rparr>) e) =
     calls e @ map (\<lambda>p. DeleteHandle (snd p)) (DB_coll2handle d) @ [DeleteDB]"
  by (simp add: DB_dtor_def Let_def compact_each_calls flush_each_calls delete_each_calls
      called_def)

subsection \<open>Write options\<close>

lemma put_each_options:
  "WriteBatch_batch_write_options (put_each ps wb) = WriteBatch_batch_write_options wb"
  by (induction ps wb rule: put_each.induct) (simp_all add: WriteBatch_put_def)

lemma put_each_wb: "WriteBatch_wb (put_each ps wb) = WriteBatch_wb wb @ ps"
  by (induction ps wb rule: put_each.induct) (simp_all add: WriteBatch_put_def)

lemma calls_commit:
  "calls (snd (snd (commit wb e))) =
     calls e @ [Write (WriteBatch_batch_write_options wb) (WriteBatch_wb wb)]"
  by (simp add: commit_def rocksdb_Write_def Let_def called_def split: prod.splits)

lemma calls_DB_put:
  "calls (snd (DB_put d coll k v e)) = calls e @ [Put (DB_write_options d) coll k v]"
  by (simp add: DB_put_def rocksdb_Put_def Let_def called_def split: prod.splits)

lemma create_collection_options:
  "create_collection d name e h = Some (s, d', e', h') \<Longrightarrow>
   DB_write_options d' = DB_write_options d
   \<and> DB_batch_write_options d' = DB_batch_write_options d
   \<and> DB_mode d' = DB_mode d"
  by (auto simp: create_collection_def Let_def split: if_splits prod.splits option.splits)

text \<open>
  C5: a database constructed in NORMAL mode passes to the engine, for a single-key put, write
  options that are not synchronous and keep the write-ahead log, and for the commit of a batch
  obtained from \<^verbatim>\<open>begin_writes\<close>, whatever was staged in it, options that are synchronous and
  keep the log. One constructed in BULK_LOAD mode passes options with the log disabled for
  both. For any database, the commit of a batch uses the batch options that the database
  held when the batch was created, and \<^verbatim>\<open>create_collection\<close>, the one operation that changes
  the database object, leaves both sets of options as the constructor fixed them.
\<close>

theorem write_options_by_mode:
  "calls (snd (DB_put (DB_ctor m NORMAL) coll k v e)) =
     calls e @ [Put \<lparr>sync = False, disableWAL = False\<rparr> coll k v]
   \<and> calls (snd (snd (commit (put_each ps (snd (begin_writes (DB_ctor m NORMAL)))) e))) =
     calls e @ [Write \<lparr>sync = True, disableWAL = False\<rparr> ps]
   \<and> calls (snd (DB_put (DB_ctor m BULK_LOAD) coll k v e)) =
     calls e @ [Put \<lparr>sync = False, disableWAL = True\<rparr> coll k v]
   \<and> calls (snd (snd (commit (put_each ps (snd (begin_writes (DB_ctor m BULK_LOAD)))) e))) =
     calls e @ [Write \<lparr>sync = False, disableWAL = True\<rparr> ps]
   \<and> calls (snd (snd (commit (put_each ps (snd (begin_writes d))) e))) =
     calls e @ [Write (DB_batch_write_options d) ps]
   \<and> (case create_collection d name e h of
         None \<Rightarrow> True
       | Some (s, d', e', h') \<Rightarrow>
           DB_write_options d' = DB_write_options d
           \<and> DB_batch_write_options d' = DB_batch_write_options d)"
  by (auto simp: calls_commit calls_DB_put put_each_options put_each_wb begin_writes_def
      WriteBatch_ctor_def DB_ctor_def WriteOptions_default_def Let_def
      dest: create_collection_options split: option.splits)

subsection \<open>Iterator\<close>

text \<open>
  C7: when the cursor has recorded an error, \<^verbatim>\<open>next\<close> returns that error, mapped, and leaves
  the iterator and its cursor as they were. When the cursor had no error, the advance records
  none and lands on an entry, \<^verbatim>\<open>next\<close> returns OK, the cursor is the advanced one, and the key
  and the value of that entry are in the iterator's own strings: whatever cursor \<open>c\<close>
  replaces the iterator's afterwards, \<^verbatim>\<open>key()\<close> and \<^verbatim>\<open>value()\<close> stay. When the advance leaves
  the cursor on no entry, \<^verbatim>\<open>valid()\<close> is false afterwards.
\<close>

theorem next_contract:
  "(\<not> ok (it_status (Iterator_iter it)) \<longrightarrow>
      next it = (convertStatus (it_status (Iterator_iter it)), it)
      \<and> bad (fst (next it)))
   \<and> (ok (it_status (Iterator_iter it)) \<and> ok (it_status (it_Next (Iterator_iter it)))
       \<and> it_Valid (it_Next (Iterator_iter it)) \<longrightarrow>
      fst (next it) = Status0 OK
      \<and> Iterator_iter (snd (next it)) = it_Next (Iterator_iter it)
      \<and> key (snd (next it)) = it_key (it_Next (Iterator_iter it))
      \<and> value (snd (next it)) = it_value (it_Next (Iterator_iter it))
      \<and> key ((snd (next it))\<lparr>Iterator_iter := c\<rparr>) = key (snd (next it))
      \<and> value ((snd (next it))\<lparr>Iterator_iter := c\<rparr>) = value (snd (next it)))
   \<and> (ok (it_status (Iterator_iter it)) \<and> \<not> it_Valid (it_Next (Iterator_iter it)) \<longrightarrow>
      \<not> valid (snd (next it)))"
  by (simp add: next_def Let_def capture_def key_def value_def valid_def bad_convertStatus)

lemmas cursor_defs = cursor0_def io_error_def Status_OK_def ok_def it_Valid_def it_Next_def
  move_def it_key_def it_value_def Iterator_ctor_def capture_def next_def key_def value_def
  valid_def Let_def

text \<open>
  The three cases of C7 on the sample cursor: with a recorded I/O error; on the first of its
  two entries; and on the second, where the advance leaves the range.
\<close>

theorem next_contract_witness:
  "\<not> ok (it_status (Iterator_iter (Iterator_ctor (cursor0\<lparr>it_status := io_error\<rparr>))))
   \<and> next (Iterator_ctor (cursor0\<lparr>it_status := io_error\<rparr>)) =
       (Status2 IOError ''RocksDB kIOError'' ''IO error: '',
        Iterator_ctor (cursor0\<lparr>it_status := io_error\<rparr>))
   \<and> ok (it_status (Iterator_iter (Iterator_ctor cursor0)))
   \<and> ok (it_status (it_Next (Iterator_iter (Iterator_ctor cursor0))))
   \<and> it_Valid (it_Next (Iterator_iter (Iterator_ctor cursor0)))
   \<and> key (snd (next (Iterator_ctor cursor0))) = ''b''
   \<and> value (snd (next (Iterator_ctor cursor0))) = ''2''
   \<and> ok (it_status (Iterator_iter (snd (next (Iterator_ctor cursor0)))))
   \<and> \<not> it_Valid (it_Next (Iterator_iter (snd (next (Iterator_ctor cursor0)))))
   \<and> \<not> valid (snd (next (snd (next (Iterator_ctor cursor0)))))"
  using next_contract [of "Iterator_ctor (cursor0\<lparr>it_status := io_error\<rparr>)"]
    next_contract [of "Iterator_ctor cursor0"]
    next_contract [of "snd (next (Iterator_ctor cursor0))"]
  by (simp add: cursor_defs convertStatus_def)

text \<open>
  C10: an iterator constructed from a cursor that is on no entry has an empty key and an empty
  value. After a \<^verbatim>\<open>next\<close> that leaves the cursor on no entry, \<^verbatim>\<open>key()\<close> and \<^verbatim>\<open>value()\<close> are what
  they were before the call. And \<^verbatim>\<open>next\<close> changes the key or the value only when it returns OK
  with the advanced cursor on an entry.
\<close>

theorem key_value_frame:
  "(\<not> it_Valid c \<longrightarrow> key (Iterator_ctor c) = [] \<and> value (Iterator_ctor c) = [])
   \<and> (\<not> valid (snd (next it)) \<longrightarrow>
        key (snd (next it)) = key it \<and> value (snd (next it)) = value it)
   \<and> (key (snd (next it)) \<noteq> key it \<or> value (snd (next it)) \<noteq> value it \<longrightarrow>
        fst (next it) = Status0 OK \<and> valid (snd (next it))
        \<and> Iterator_iter (snd (next it)) = it_Next (Iterator_iter it))"
  by (simp add: next_def Let_def capture_def key_def value_def valid_def Iterator_ctor_def)

text \<open>
  C10 on the sample cursor: constructed on no entry; advanced from the first entry to the
  second, where the key changes; and advanced past the second, where the key and the value
  of the second entry stay.
\<close>

theorem key_value_frame_witness:
  "\<not> it_Valid (cursor0\<lparr>rest := []\<rparr>)
   \<and> key (Iterator_ctor (cursor0\<lparr>rest := []\<rparr>)) = []
   \<and> value (Iterator_ctor (cursor0\<lparr>rest := []\<rparr>)) = []
   \<and> key (snd (next (Iterator_ctor cursor0))) \<noteq> key (Iterator_ctor cursor0)
   \<and> valid (snd (next (Iterator_ctor cursor0)))
   \<and> key (snd (next (Iterator_ctor cursor0))) = ''b''
   \<and> \<not> valid (snd (next (snd (next (Iterator_ctor cursor0)))))
   \<and> fst (next (snd (next (Iterator_ctor cursor0)))) = Status0 OK
   \<and> key (snd (next (snd (next (Iterator_ctor cursor0))))) = ''b''
   \<and> value (snd (next (snd (next (Iterator_ctor cursor0))))) = ''2''"
  using key_value_frame [of "cursor0\<lparr>rest := []\<rparr>" "Iterator_ctor cursor0"]
    key_value_frame [of "cursor0" "snd (next (Iterator_ctor cursor0))"]
  by (simp add: cursor_defs)

subsection \<open>WriteBatch\<close>

lemma map_of_store: "map_of (store k v es) = (map_of es)(k \<mapsto> v)"
  by (induction es) auto

lemma apply_puts_lookup:
  "map_of (apply_puts ps t h) k =
     (case staged_last ps h k of Some v \<Rightarrow> Some v | None \<Rightarrow> map_of (t h) k)"
proof (induction ps arbitrary: t)
  case Nil
  then show ?case by simp
next
  case (Cons p ps)
  obtain h' k' v where p: "p = (h', k', v)" by (cases p)
  show ?case
    by (simp add: p Cons.IH map_of_store split: option.splits)
qed

lemma not_bad_OK: "\<not> bad (Status0 OK)"
  by (simp add: bad_def Status0_def)

lemma convertStatus_OK: "convertStatus Status_OK = Status0 OK"
  by (simp add: convertStatus_def Status_OK_def)

lemma ok_convertStatus: "ok s \<Longrightarrow> convertStatus s = Status0 OK"
  by (simp add: convertStatus_def ok_def)

lemmas engine_defs = batch0_def engine0_def begin_writes_def DB_ctor_def
  WriteBatch_ctor_def WriteBatch_put_def WriteOptions_default_def commit_def rocksdb_Write_def
  answer_def called_def io_error_def Status_OK_def ok_def Let_def Reader_get_def rocksdb_Get_def
  convertStatus_def Status0_def Status1_def Status2_def

text \<open>
  C2, as stated, fails: a commit that the engine refuses with an I/O error returns the mapped
  error and applies nothing (the key x is not found afterwards), but the batch still holds
  both staged puts; when the engine works again, a second \<^verbatim>\<open>commit\<close> of the same batch returns
  OK and both keys are read back. The staged state is not discarded.
\<close>

theorem commit_retry_counterexample:
  "kind (fst (commit batch0 (engine0\<lparr>reply := (\<lambda>c. io_error)\<rparr>))) = IOError
   \<and> WriteBatch_wb (fst (snd (commit batch0 (engine0\<lparr>reply := (\<lambda>c. io_error)\<rparr>)))) =
       [(1, ''x'', ''1''), (1, ''y'', ''2'')]
   \<and> fst (Reader_get
        ((snd (snd (commit batch0 (engine0\<lparr>reply := (\<lambda>c. io_error)\<rparr>))))
           \<lparr>reply := (\<lambda>c. Status_OK)\<rparr>) 1 ''x'') = Status0 NotFound
   \<and> fst (commit (fst (snd (commit batch0 (engine0\<lparr>reply := (\<lambda>c. io_error)\<rparr>))))
        ((snd (snd (commit batch0 (engine0\<lparr>reply := (\<lambda>c. io_error)\<rparr>))))
           \<lparr>reply := (\<lambda>c. Status_OK)\<rparr>)) = Status0 OK
   \<and> Reader_get
        (snd (snd (commit (fst (snd (commit batch0 (engine0\<lparr>reply := (\<lambda>c. io_error)\<rparr>))))
           ((snd (snd (commit batch0 (engine0\<lparr>reply := (\<lambda>c. io_error)\<rparr>))))
              \<lparr>reply := (\<lambda>c. Status_OK)\<rparr>)))) 1 ''x'' = (Status0 OK, ''1'')
   \<and> Reader_get
        (snd (snd (commit (fst (snd (commit batch0 (engine0\<lparr>reply := (\<lambda>c. io_error)\<rparr>))))
           ((snd (snd (commit batch0 (engine0\<lparr>reply := (\<lambda>c. io_error)\<rparr>))))
              \<lparr>reply := (\<lambda>c. Status_OK)\<rparr>)))) 1 ''y'' = (Status0 OK, ''2'')"
  by (simp add: engine_defs)

text \<open>
  C2, amended: \<^verbatim>\<open>commit\<close> hands all staged puts to the engine in one batch write and returns
  the engine's answer, mapped. The write is all or nothing: when the status is an error the
  data of the engine is what it was, and otherwise every staged put has been applied, so that
  a key of a collection reads as its last staged value, or as before when no put to it was
  staged. \<^verbatim>\<open>commit\<close> never changes the batch: after a failed commit as after a successful one
  it holds every staged put, and a second \<^verbatim>\<open>commit\<close> submits the whole batch again.
\<close>

theorem commit_all_or_nothing:
  "fst (snd (commit wb e)) = wb
   \<and> fst (commit wb e) =
       convertStatus (answer e (Write (WriteBatch_batch_write_options wb) (WriteBatch_wb wb)))
   \<and> table (snd (snd (commit wb e))) =
       (if bad (fst (commit wb e)) then table e else apply_puts (WriteBatch_wb wb) (table e))
   \<and> map_of (table (snd (snd (commit wb e))) h) k =
       (if bad (fst (commit wb e)) then map_of (table e h) k
        else case staged_last (WriteBatch_wb wb) h k of
               Some v \<Rightarrow> Some v
             | None \<Rightarrow> map_of (table e h) k)
   \<and> calls (snd (snd (commit wb e))) =
       calls e @ [Write (WriteBatch_batch_write_options wb) (WriteBatch_wb wb)]
   \<and> commit wb (snd (snd (commit wb e))) =
       (let (s, e1) = rocksdb_Write (WriteBatch_batch_write_options wb) (WriteBatch_wb wb)
                        (snd (snd (commit wb e)))
        in (convertStatus s, wb, e1))"
  by (simp add: commit_def rocksdb_Write_def Let_def called_def bad_convertStatus
      convertStatus_OK ok_convertStatus apply_puts_lookup not_bad_OK
      split: prod.splits)

subsection \<open>Creating a collection\<close>

lemma filter_absent: "map_of es k = None \<Longrightarrow> filter (\<lambda>p. fst p = k) es = []"
  by (induction es) (auto split: if_splits)

lemma named_store: "map_of es k = None \<Longrightarrow> named k (store k v es) = 1"
  by (induction es) (auto simp: named_def filter_absent split: if_splits)

lemma create_answer_ok:
  "ok (create_answer d name e h) =
     (ok (answer e (CreateColumnFamily (colopts_for d e h) name))
      \<and> name \<notin> set (map (\<lambda>f. fst (snd f)) (families e)))"
  by (simp add: create_answer_def rocksdb_CreateColumnFamily_def Let_def Status_OK_def ok_def)

lemma families_named_absent:
  "name \<notin> set (map (\<lambda>f. fst (snd f)) (families e)) \<Longrightarrow> families_named name e = 0"
  by (auto simp: families_named_def filter_empty_conv)

lemma create_collection_present:
  "map_of (DB_coll2handle d) name \<noteq> None \<Longrightarrow>
   create_collection d name e h =
     Some (Status2 Exists ''column family already exists'' name, d, e, h)"
  by (simp add: create_collection_def)

lemma create_collection_created:
  assumes "map_of (DB_coll2handle d) name = None"
    and "ok (create_answer d name e h)"
  shows "create_collection d name e h =
     Some (Status0 OK, d\<lparr>DB_coll2handle := store name (fresh_handle e) (DB_coll2handle d)\<rparr>,
           e\<lparr>calls := calls e @ [CreateColumnFamily (colopts_for d e h) name],
              families := families e @ [(fresh_handle e, name, colopts_for d e h)],
              table := (table e)(fresh_handle e := [])\<rparr>,
           snd (ApplyColumnFamilyOptions (DB_mode d) (cf (build_defaults e)) h))"
proof -
  obtain c h1 where A: "ApplyColumnFamilyOptions (DB_mode d) (cf (build_defaults e)) h = (c, h1)"
    by (cases "ApplyColumnFamilyOptions (DB_mode d) (cf (build_defaults e)) h")
  from assms(2) have B: "ok (answer e (CreateColumnFamily c name))"
    "name \<notin> set (map (\<lambda>f. fst (snd f)) (families e))"
    by (simp_all add: create_answer_ok colopts_for_def A)
  from assms(1) B show ?thesis
    by (simp add: create_collection_def colopts_for_def rocksdb_CreateColumnFamily_def Let_def
        called_def Status_OK_def ok_def A)
qed

lemma create_collection_refused:
  assumes "map_of (DB_coll2handle d) name = None"
    and "\<not> ok (create_answer d name e h)"
  shows "create_collection d name e h =
     Some (convertStatus (create_answer d name e h), d,
           e\<lparr>calls := calls e @ [CreateColumnFamily (colopts_for d e h) name]\<rparr>,
           snd (ApplyColumnFamilyOptions (DB_mode d) (cf (build_defaults e)) h))"
proof -
  obtain c h1 where A: "ApplyColumnFamilyOptions (DB_mode d) (cf (build_defaults e)) h = (c, h1)"
    by (cases "ApplyColumnFamilyOptions (DB_mode d) (cf (build_defaults e)) h")
  obtain s hnd e1 where C: "rocksdb_CreateColumnFamily c name e = (s, hnd, e1)"
    by (cases "rocksdb_CreateColumnFamily c name e")
  from assms(2) have s: "\<not> ok s"
    by (simp add: create_answer_def colopts_for_def A C)
  have e1: "e1 = e\<lparr>calls := calls e @ [CreateColumnFamily c name]\<rparr>"
    using C s
    by (auto simp: rocksdb_CreateColumnFamily_def Let_def called_def Status_OK_def ok_def
        split: if_splits)
  from assms(1) s show ?thesis
    by (simp add: create_collection_def create_answer_def colopts_for_def Let_def A C e1)
qed

lemma CreateColumnFamily_distinct:
  "distinct (map (\<lambda>f. fst (snd f)) (families e)) \<Longrightarrow>
   distinct (map (\<lambda>f. fst (snd f))
     (families (snd (snd (rocksdb_CreateColumnFamily opts name e)))))"
  by (simp add: rocksdb_CreateColumnFamily_def Let_def called_def)

lemmas create_defs = create_collection_def after_def colopts_for_def create_answer_def
  rocksdb_CreateColumnFamily_def fresh_handle_def ApplyColumnFamilyOptions_def totalRAM_def
  host0_def boot_def fallbackRAM_def Options0_def named_def families_named_def

text \<open>
  C9, as stated, fails: on a READ_ONLY database, whose engine was opened read-only, the name
  c is not in the map, and yet \<^verbatim>\<open>create_collection\<close> creates nothing: it returns the engine's
  refusal, mapped (\<open>NotImplemented\<close>), the map stays empty, the engine keeps its one family,
  and a second call with the same name returns the same refusal, not \<open>Exists\<close>.
\<close>

theorem create_collection_refused_counterexample:
  "map_of (DB_coll2handle (DB_ctor [] READ_ONLY)) ''c'' = None
   \<and> map_option fst
        (create_collection (DB_ctor [] READ_ONLY) ''c'' (engine0\<lparr>read_only := True\<rparr>) host0) =
       Some (Status0 NotImplemented)
   \<and> map_option (\<lambda>r. DB_coll2handle (fst (snd r)))
        (create_collection (DB_ctor [] READ_ONLY) ''c'' (engine0\<lparr>read_only := True\<rparr>) host0) =
       Some []
   \<and> map_option (\<lambda>r. map (\<lambda>f. fst (snd f)) (families (fst (snd (snd r)))))
        (create_collection (DB_ctor [] READ_ONLY) ''c'' (engine0\<lparr>read_only := True\<rparr>) host0) =
       Some [''default'']
   \<and> map_option fst
        (after (create_collection (DB_ctor [] READ_ONLY) ''c'' (engine0\<lparr>read_only := True\<rparr>)
                 host0) ''c'') =
       Some (Status0 NotImplemented)"
  by (simp add: engine_defs create_defs)

text \<open>
  C9, amended. When the name is in the map, \<^verbatim>\<open>create_collection\<close> returns \<open>Exists\<close> and
  leaves the database object, the engine and the host as they were. Otherwise it asks the
  engine for a family of that name with the options that the tuning policy gives for the mode
  of the database. When the engine creates it, the engine held no family of that name, the
  call returns OK, the engine has exactly one new family, with those options, and so exactly
  one family of that name, and the map is the old one with the name bound to the new handle,
  under one entry; a second call with the same name then returns \<open>Exists\<close> and changes
  neither the map nor the engine, which still has exactly one family of that name. When the
  engine refuses, the call returns the engine's error, mapped (never \<open>Exists\<close>), and the
  database object, the families and the data of the engine are unchanged.
\<close>

theorem create_collection_contract:
  "(map_of (DB_coll2handle d) name \<noteq> None \<longrightarrow>
      create_collection d name e h =
        Some (Status2 Exists ''column family already exists'' name, d, e, h))
   \<and> (map_of (DB_coll2handle d) name = None \<and> ok (create_answer d name e h) \<longrightarrow>
      create_collection d name e h =
        Some (Status0 OK,
              d\<lparr>DB_coll2handle := store name (fresh_handle e) (DB_coll2handle d)\<rparr>,
              e\<lparr>calls := calls e @ [CreateColumnFamily (colopts_for d e h) name],
                 families := families e @ [(fresh_handle e, name, colopts_for d e h)],
                 table := (table e)(fresh_handle e := [])\<rparr>,
              snd (ApplyColumnFamilyOptions (DB_mode d) (cf (build_defaults e)) h))
      \<and> families_named name e = 0
      \<and> map_option (\<lambda>r. families_named name (fst (snd (snd r))))
            (create_collection d name e h) = Some 1
      \<and> map_of (store name (fresh_handle e) (DB_coll2handle d)) =
          (map_of (DB_coll2handle d))(name \<mapsto> fresh_handle e)
      \<and> named name (store name (fresh_handle e) (DB_coll2handle d)) = 1
      \<and> map_option fst (after (create_collection d name e h) name) =
          Some (Status2 Exists ''column family already exists'' name)
      \<and> map_option (\<lambda>r. fst (snd r)) (after (create_collection d name e h) name) =
          map_option (\<lambda>r. fst (snd r)) (create_collection d name e h)
      \<and> map_option (\<lambda>r. fst (snd (snd r))) (after (create_collection d name e h) name) =
          map_option (\<lambda>r. fst (snd (snd r))) (create_collection d name e h)
      \<and> map_option (\<lambda>r. families_named name (fst (snd (snd r))))
            (after (create_collection d name e h) name) = Some 1
      \<and> map_option (\<lambda>r. named name (DB_coll2handle (fst (snd r))))
            (after (create_collection d name e h) name) = Some 1)
   \<and> (map_of (DB_coll2handle d) name = None \<and> \<not> ok (create_answer d name e h) \<longrightarrow>
      create_collection d name e h =
        Some (convertStatus (create_answer d name e h), d,
              e\<lparr>calls := calls e @ [CreateColumnFamily (colopts_for d e h) name]\<rparr>,
              snd (ApplyColumnFamilyOptions (DB_mode d) (cf (build_defaults e)) h))
      \<and> bad (convertStatus (create_answer d name e h))
      \<and> kind (convertStatus (create_answer d name e h)) \<noteq> Exists
      \<and> map_option (\<lambda>r. families_named name (fst (snd (snd r))))
            (create_collection d name e h) = Some (families_named name e))"
proof -
  have a: "map_of (DB_coll2handle d) name \<noteq> None \<longrightarrow>
      create_collection d name e h =
        Some (Status2 Exists ''column family already exists'' name, d, e, h)"
    by (simp add: create_collection_present)
  have b: "map_of (DB_coll2handle d) name = None \<and> ok (create_answer d name e h) \<longrightarrow>
      create_collection d name e h =
        Some (Status0 OK,
              d\<lparr>DB_coll2handle := store name (fresh_handle e) (DB_coll2handle d)\<rparr>,
              e\<lparr>calls := calls e @ [CreateColumnFamily (colopts_for d e h) name],
                 families := families e @ [(fresh_handle e, name, colopts_for d e h)],
                 table := (table e)(fresh_handle e := [])\<rparr>,
              snd (ApplyColumnFamilyOptions (DB_mode d) (cf (build_defaults e)) h))
      \<and> families_named name e = 0
      \<and> map_option (\<lambda>r. families_named name (fst (snd (snd r))))
            (create_collection d name e h) = Some 1
      \<and> map_of (store name (fresh_handle e) (DB_coll2handle d)) =
          (map_of (DB_coll2handle d))(name \<mapsto> fresh_handle e)
      \<and> named name (store name (fresh_handle e) (DB_coll2handle d)) = 1
      \<and> map_option fst (after (create_collection d name e h) name) =
          Some (Status2 Exists ''column family already exists'' name)
      \<and> map_option (\<lambda>r. fst (snd r)) (after (create_collection d name e h) name) =
          map_option (\<lambda>r. fst (snd r)) (create_collection d name e h)
      \<and> map_option (\<lambda>r. fst (snd (snd r))) (after (create_collection d name e h) name) =
          map_option (\<lambda>r. fst (snd (snd r))) (create_collection d name e h)
      \<and> map_option (\<lambda>r. families_named name (fst (snd (snd r))))
            (after (create_collection d name e h) name) = Some 1
      \<and> map_option (\<lambda>r. named name (DB_coll2handle (fst (snd r))))
            (after (create_collection d name e h) name) = Some 1"
  proof (intro impI, elim conjE)
    assume m: "map_of (DB_coll2handle d) name = None" and k: "ok (create_answer d name e h)"
    from k have n: "name \<notin> set (map (\<lambda>f. fst (snd f)) (families e))"
      by (simp add: create_answer_ok)
    have z: "families_named name e = 0" using n by (rule families_named_absent)
    have z': "filter (\<lambda>f. fst (snd f) = name) (families e) = []"
      using z by (simp add: families_named_def)
    show "create_collection d name e h =
        Some (Status0 OK,
              d\<lparr>DB_coll2handle := store name (fresh_handle e) (DB_coll2handle d)\<rparr>,
              e\<lparr>calls := calls e @ [CreateColumnFamily (colopts_for d e h) name],
                 families := families e @ [(fresh_handle e, name, colopts_for d e h)],
                 table := (table e)(fresh_handle e := [])\<rparr>,
              snd (ApplyColumnFamilyOptions (DB_mode d) (cf (build_defaults e)) h))
      \<and> families_named name e = 0
      \<and> map_option (\<lambda>r. families_named name (fst (snd (snd r))))
            (create_collection d name e h) = Some 1
      \<and> map_of (store name (fresh_handle e) (DB_coll2handle d)) =
          (map_of (DB_coll2handle d))(name \<mapsto> fresh_handle e)
      \<and> named name (store name (fresh_handle e) (DB_coll2handle d)) = 1
      \<and> map_option fst (after (create_collection d name e h) name) =
          Some (Status2 Exists ''column family already exists'' name)
      \<and> map_option (\<lambda>r. fst (snd r)) (after (create_collection d name e h) name) =
          map_option (\<lambda>r. fst (snd r)) (create_collection d name e h)
      \<and> map_option (\<lambda>r. fst (snd (snd r))) (after (create_collection d name e h) name) =
          map_option (\<lambda>r. fst (snd (snd r))) (create_collection d name e h)
      \<and> map_option (\<lambda>r. families_named name (fst (snd (snd r))))
            (after (create_collection d name e h) name) = Some 1
      \<and> map_option (\<lambda>r. named name (DB_coll2handle (fst (snd r))))
            (after (create_collection d name e h) name) = Some 1"
      by (simp add: create_collection_created [OF m k] create_collection_present map_of_store
          named_store [OF m] after_def z families_named_def z')
  qed
  have c: "map_of (DB_coll2handle d) name = None \<and> \<not> ok (create_answer d name e h) \<longrightarrow>
      create_collection d name e h =
        Some (convertStatus (create_answer d name e h), d,
              e\<lparr>calls := calls e @ [CreateColumnFamily (colopts_for d e h) name]\<rparr>,
              snd (ApplyColumnFamilyOptions (DB_mode d) (cf (build_defaults e)) h))
      \<and> bad (convertStatus (create_answer d name e h))
      \<and> kind (convertStatus (create_answer d name e h)) \<noteq> Exists
      \<and> map_option (\<lambda>r. families_named name (fst (snd (snd r))))
            (create_collection d name e h) = Some (families_named name e)"
    by (simp add: create_collection_refused bad_convertStatus convertStatus_not_Exists
        families_named_def)
  from a b c show ?thesis by blast
qed

text \<open>
  The cases of C9: the name present; the name absent on an engine that creates the family;
  the name absent on a read-only engine, which refuses; and the name default, absent from the
  empty map that \<^verbatim>\<open>Initialize\<close> builds, on an engine that holds its default family and
  refuses a second one of that name.
\<close>

theorem create_collection_contract_witness:
  "map_of (DB_coll2handle (DB_ctor [(''c'', 2)] NORMAL)) ''c'' \<noteq> None
   \<and> map_option fst (create_collection (DB_ctor [(''c'', 2)] NORMAL) ''c'' engine0 host0) =
       Some (Status2 Exists ''column family already exists'' ''c'')
   \<and> map_of (DB_coll2handle (DB_ctor [] NORMAL)) ''c'' = None
   \<and> ok (create_answer (DB_ctor [] NORMAL) ''c'' engine0 host0)
   \<and> map_option fst (create_collection (DB_ctor [] NORMAL) ''c'' engine0 host0) =
       Some (Status0 OK)
   \<and> map_option (\<lambda>r. DB_coll2handle (fst (snd r)))
        (create_collection (DB_ctor [] NORMAL) ''c'' engine0 host0) = Some [(''c'', 2)]
   \<and> map_option (\<lambda>r. families_named ''c'' (fst (snd (snd r))))
        (create_collection (DB_ctor [] NORMAL) ''c'' engine0 host0) = Some 1
   \<and> map_option fst (after (create_collection (DB_ctor [] NORMAL) ''c'' engine0 host0) ''c'') =
       Some (Status2 Exists ''column family already exists'' ''c'')
   \<and> \<not> ok (create_answer (DB_ctor [] READ_ONLY) ''c'' (engine0\<lparr>read_only := True\<rparr>) host0)
   \<and> map_option fst
        (create_collection (DB_ctor [] READ_ONLY) ''c'' (engine0\<lparr>read_only := True\<rparr>) host0) =
       Some (Status0 NotImplemented)
   \<and> map_of (DB_coll2handle (DB_ctor [] NORMAL)) ''default'' = None
   \<and> \<not> ok (create_answer (DB_ctor [] NORMAL) ''default'' engine0 host0)
   \<and> map_option (\<lambda>r. kind (fst r))
        (create_collection (DB_ctor [] NORMAL) ''default'' engine0 host0) = Some Invalid
   \<and> map_option (\<lambda>r. families_named ''default'' (fst (snd (snd r))))
        (create_collection (DB_ctor [] NORMAL) ''default'' engine0 host0) = Some 1"
  using create_collection_contract [of "DB_ctor [(''c'', 2)] NORMAL" "''c''" engine0 host0]
    create_collection_contract [of "DB_ctor [] NORMAL" "''c''" engine0 host0]
    create_collection_contract
      [of "DB_ctor [] READ_ONLY" "''c''" "engine0\<lparr>read_only := True\<rparr>" host0]
    create_collection_contract [of "DB_ctor [] NORMAL" "''default''" engine0 host0]
  by (simp add: engine_defs create_defs)

subsection \<open>Creating and opening a database\<close>

lemma Initialize_result:
  "Initialize p v h = None \<or>
   (\<exists>v1 h1. Initialize p v h = Some (convertStatus (fst (rocksdb_DB_Open
        ((fst (ApplyDBOptions (hardware_concurrency v) NORMAL (default_Options v) h))
           \<lparr>create_if_missing := True, error_if_exists := True\<rparr>) p v)), None, v1, h1)
      \<and> \<not> ok (fst (rocksdb_DB_Open
        ((fst (ApplyDBOptions (hardware_concurrency v) NORMAL (default_Options v) h))
           \<lparr>create_if_missing := True, error_if_exists := True\<rparr>) p v))) \<or>
   (\<exists>e v1 h1. Initialize p v h = Some (Status0 OK, Some (DB_ctor [] NORMAL, e), v1, h1))"
  by (auto simp: Initialize_def Let_def split: prod.splits option.splits)

lemma Initialize_not_Exists:
  "map_option (\<lambda>r. kind (fst r)) (Initialize p v h) \<noteq> Some Exists"
  using Initialize_result [of p v h]
  by (auto simp: convertStatus_not_Exists Status0_def)

lemma Initialize_present:
  assumes "disk v p \<noteq> None" "ok (open_fault v p)" "\<not> ok (exists_error v)"
  shows "Initialize p v h =
    Some (convertStatus (exists_error v), None, v,
          snd (ApplyDBOptions (hardware_concurrency v) NORMAL (default_Options v) h))"
proof -
  obtain o1 h1 where A:
    "ApplyDBOptions (hardware_concurrency v) NORMAL (default_Options v) h = (o1, h1)"
    by (cases "ApplyDBOptions (hardware_concurrency v) NORMAL (default_Options v) h")
  from assms show ?thesis
    by (auto simp: Initialize_def Let_def A rocksdb_DB_Open_def)
qed

lemma Open_missing:
  assumes "disk v p = None" "\<not> ok (missing_error v)"
  shows "Open p mode v h =
    Some (convertStatus (missing_error v), None,
          snd (ApplyDBOptions (hardware_concurrency v) mode (default_Options v) h))"
proof -
  obtain o1 h1 where A:
    "ApplyDBOptions (hardware_concurrency v) mode (default_Options v) h = (o1, h1)"
    by (cases "ApplyDBOptions (hardware_concurrency v) mode (default_Options v) h")
  from assms show ?thesis
    by (simp add: Open_def Let_def A rocksdb_ListColumnFamilies_def)
qed

lemma kind_NotFound: "(kind (convertStatus s) = NotFound) = (code s = kNotFound)"
  by (cases "code s") (simp_all add: convertStatus_def Status0_def Status1_def Status2_def)

lemmas open_defs = env0_def Initialize_def Open_def rocksdb_DB_Open_def
  rocksdb_ListColumnFamilies_def ApplyDBOptions_def ApplyColumnFamilyOptions_def totalRAM_def
  host0_def boot_def fallbackRAM_def Options0_def

text \<open>
  C3, as stated, fails: the path db holds a database, the engine answers the attempt to create
  one there with its invalid-argument code (as RocksDB does under \<^verbatim>\<open>error_if_exists\<close>), and
  \<^verbatim>\<open>Initialize\<close> returns that answer mapped, of kind \<open>Invalid\<close>, not \<open>Exists\<close>.
\<close>

theorem Initialize_existing_counterexample:
  "disk env0 ''db'' = Some engine0
   \<and> map_option fst (Initialize ''db'' env0 host0) =
       Some (Status2 Invalid ''RocksDB kInvalidArgument''
               ''Invalid argument: db: exists (error_if_exists is true)'')
   \<and> map_option (\<lambda>r. kind (fst r)) (Initialize ''db'' env0 host0) = Some Invalid"
  by (simp add: open_defs Status_OK_def ok_def Let_def convertStatus_def Status2_def)

text \<open>
  C3, amended. On a path that holds a database, which the engine reports as an error under
  \<^verbatim>\<open>error_if_exists\<close>, \<^verbatim>\<open>Initialize\<close> fails with that error of the engine, mapped by
  \<^verbatim>\<open>convertStatus\<close>, and produces no database object. Whatever the engine answers, no result
  of \<^verbatim>\<open>Initialize\<close> has the kind \<open>Exists\<close>. On a path that holds no database, \<^verbatim>\<open>Open\<close>, in
  any mode, fails with the error that the engine gives for the listing of the families,
  mapped, and produces no database object; its kind is \<open>NotFound\<close> exactly when the
  engine's code is its not-found code.
\<close>

theorem Initialize_Open_errors:
  "(disk v p \<noteq> None \<and> ok (open_fault v p) \<and> \<not> ok (exists_error v) \<longrightarrow>
      map_option fst (Initialize p v h) = Some (convertStatus (exists_error v))
      \<and> map_option (\<lambda>r. fst (snd r)) (Initialize p v h) = Some None
      \<and> bad (convertStatus (exists_error v)))
   \<and> map_option (\<lambda>r. kind (fst r)) (Initialize p v h) \<noteq> Some Exists
   \<and> (disk v p = None \<and> \<not> ok (missing_error v) \<longrightarrow>
      map_option fst (Open p mode v h) = Some (convertStatus (missing_error v))
      \<and> map_option (\<lambda>r. fst (snd r)) (Open p mode v h) = Some None
      \<and> bad (convertStatus (missing_error v))
      \<and> (kind (convertStatus (missing_error v)) = NotFound) = (code (missing_error v) = kNotFound))"
  using Initialize_not_Exists [of p v h]
  by (simp add: Initialize_present Open_missing bad_convertStatus kind_NotFound)

text \<open>
  C3 on the sample environment: \<^verbatim>\<open>Initialize\<close> on the path that holds a database, \<^verbatim>\<open>Open\<close> on a
  path that holds none, and the same \<^verbatim>\<open>Open\<close> with an engine that reports a missing database
  with its not-found code.
\<close>

theorem Initialize_Open_errors_witness:
  "disk env0 ''db'' \<noteq> None \<and> ok (open_fault env0 ''db'') \<and> \<not> ok (exists_error env0)
   \<and> map_option (\<lambda>r. kind (fst r)) (Initialize ''db'' env0 host0) = Some Invalid
   \<and> disk env0 ''nodb'' = None \<and> \<not> ok (missing_error env0)
   \<and> map_option (\<lambda>r. kind (fst r)) (Open ''nodb'' READ_ONLY env0 host0) = Some IOError
   \<and> disk (env0\<lparr>missing_error := \<lparr>code = kNotFound, ToString = ''NotFound: ''\<rparr>\<rparr>) ''nodb'' = None
   \<and> map_option fst
        (Open ''nodb'' NORMAL (env0\<lparr>missing_error := \<lparr>code = kNotFound, ToString = ''NotFound: ''\<rparr>\<rparr>)
           host0) = Some (Status0 NotFound)"
  using Initialize_Open_errors [of env0 "''db''" host0 NORMAL]
    Initialize_Open_errors [of env0 "''nodb''" host0 READ_ONLY]
    Initialize_Open_errors
      [of "env0\<lparr>missing_error := \<lparr>code = kNotFound, ToString = ''NotFound: ''\<rparr>\<rparr>" "''nodb''"
          host0 NORMAL]
  by (simp add: open_defs Status_OK_def ok_def Let_def convertStatus_def Status2_def Status0_def)

subsection \<open>Reader and iteration order\<close>

lemma scan_invalid: "\<not> valid it \<Longrightarrow> scan it = []"
  by (subst scan.simps) simp

lemma scan_valid:
  "valid it \<Longrightarrow>
   scan it = key it # (if bad (fst (next it)) then [] else scan (snd (next it)))"
  by (subst scan.simps) simp

lemma synced_ctor: "synced (Iterator_ctor c)"
  by (simp add: synced_def Iterator_ctor_def capture_def valid_def key_def)

lemma synced_next: "\<not> bad (fst (next it)) \<Longrightarrow> synced (snd (next it))"
  by (auto simp: synced_def next_def capture_def valid_def key_def Let_def bad_convertStatus
      split: if_splits)

lemma next_rest:
  "\<not> bad (fst (next it)) \<Longrightarrow>
   rest (Iterator_iter (snd (next it))) = tl (rest (Iterator_iter it))
   \<or> rest (Iterator_iter (snd (next it))) = []"
  by (auto simp: next_def it_Next_def move_def capture_def Let_def bad_convertStatus
      split: if_splits list.splits)

lemma scan_prefix:
  "synced it \<Longrightarrow> take (length (scan it)) (map fst (rest (Iterator_iter it))) = scan it"
proof (induction it rule: scan.induct)
  case (1 it)
  show ?case
  proof (cases "valid it")
    case False
    then show ?thesis by (simp add: scan_invalid)
  next
    case True
    then obtain e es where r: "rest (Iterator_iter it) = e # es"
      by (cases "rest (Iterator_iter it)") (auto simp: valid_def it_Valid_def)
    have k: "key it = fst e"
      using "1.prems" True r by (simp add: synced_def it_key_def)
    show ?thesis
    proof (cases "bad (fst (next it))")
      case True
      with \<open>valid it\<close> r k show ?thesis by (simp add: scan_valid)
    next
      case False
      have s: "synced (snd (next it))" using False by (rule synced_next)
      have ih: "take (length (scan (snd (next it))))
                  (map fst (rest (Iterator_iter (snd (next it))))) = scan (snd (next it))"
        using "1.IH" [OF True False s] .
      from next_rest [OF False] r
      have "rest (Iterator_iter (snd (next it))) = es \<or> rest (Iterator_iter (snd (next it))) = []"
        by simp
      then show ?thesis
      proof
        assume "rest (Iterator_iter (snd (next it))) = es"
        with ih True False r k show ?thesis by (simp add: scan_valid)
      next
        assume "rest (Iterator_iter (snd (next it))) = []"
        with ih have "scan (snd (next it)) = []" by simp
        with True False r k show ?thesis by (simp add: scan_valid)
      qed
    qed
  qed
qed

lemma next_clean:
  assumes "ok (it_status (Iterator_iter it))" "list_all ok (outcomes (Iterator_iter it))"
  shows "fst (next it) = Status0 OK
    \<and> rest (Iterator_iter (snd (next it))) = tl (rest (Iterator_iter it))
    \<and> ok (it_status (Iterator_iter (snd (next it))))
    \<and> list_all ok (outcomes (Iterator_iter (snd (next it))))"
  using assms
  by (auto simp: next_def it_Next_def move_def capture_def Let_def split: list.splits)

lemma scan_all:
  "synced it \<Longrightarrow> ok (it_status (Iterator_iter it)) \<Longrightarrow>
   list_all ok (outcomes (Iterator_iter it)) \<Longrightarrow>
   scan it = map fst (rest (Iterator_iter it))"
proof (induction it rule: scan.induct)
  case (1 it)
  show ?case
  proof (cases "valid it")
    case False
    then show ?thesis by (simp add: scan_invalid valid_def it_Valid_def)
  next
    case True
    then obtain e es where r: "rest (Iterator_iter it) = e # es"
      by (cases "rest (Iterator_iter it)") (auto simp: valid_def it_Valid_def)
    have k: "key it = fst e"
      using "1.prems"(1) True r by (simp add: synced_def it_key_def)
    note c = next_clean [OF "1.prems"(2) "1.prems"(3)]
    have nb: "\<not> bad (fst (next it))" using c by (simp add: not_bad_OK)
    have "scan (snd (next it)) = map fst (rest (Iterator_iter (snd (next it))))"
      using "1.IH" [OF True nb synced_next [OF nb]] c by simp
    with c r have "scan (snd (next it)) = map fst es" by simp
    with True nb r k show ?thesis by (simp add: scan_valid)
  qed
qed


lemma from_key_Nil: "from_key [] es = es"
  by (simp add: from_key_def)

lemma from_key_filter:
  "sorted_wrt (<) (map fst es) \<Longrightarrow>
   map fst (from_key k es) = filter (\<lambda>x. k \<le> x) (map fst es)"
proof (induction es)
  case Nil
  then show ?case by (simp add: from_key_def)
next
  case (Cons e es)
  show ?case
  proof (cases "fst e < k")
    case True
    with Cons show ?thesis by (simp add: from_key_def)
  next
    case False
    with Cons.prems have "\<forall>x\<in>set (map fst es). k \<le> x" by fastforce
    then have "filter (\<lambda>x. k \<le> x) (map fst es) = map fst es" by (simp add: filter_id_conv)
    with False show ?thesis by (simp add: from_key_def)
  qed
qed

lemma from_key_present:
  "sorted_wrt (<) (map fst es) \<Longrightarrow> k \<in> set (map fst es) \<Longrightarrow>
   \<exists>v es'. from_key k es = (k, v) # es'"
proof (induction es)
  case Nil
  then show ?case by simp
next
  case (Cons e es)
  show ?case
  proof (cases "fst e < k")
    case True
    with Cons show ?thesis by (auto simp: from_key_def)
  next
    case False
    with Cons.prems have "fst e = k" by fastforce
    with False show ?thesis by (cases e) (auto simp: from_key_def)
  qed
qed

lemma from_key_sorted:
  "sorted_wrt (<) (map fst es) \<Longrightarrow> sorted_wrt (<) (map fst (from_key k es))"
  by (simp add: from_key_filter sorted_wrt_filter)

lemma Reader_iterator_null:
  "\<not> ok (reply e (NewIterator coll)) \<Longrightarrow>
   Reader_iterator e coll k = (Status1 Failure ''rocksdb::DB::NewIterator()'', None)"
  by (simp add: Reader_iterator_def rocksdb_NewIterator_def)

lemma Reader_iterator_seek_fails:
  "ok (reply e (NewIterator coll)) \<Longrightarrow> move_outcomes e coll \<noteq> [] \<Longrightarrow>
   \<not> ok (hd (move_outcomes e coll)) \<Longrightarrow>
   Reader_iterator e coll k = (convertStatus (hd (move_outcomes e coll)), None)"
  by (cases "move_outcomes e coll")
    (simp_all add: Reader_iterator_def rocksdb_NewIterator_def it_SeekToFirst_def it_Seek_def
      move_def Let_def)

lemma Reader_iterator_positioned:
  "ok (reply e (NewIterator coll)) \<Longrightarrow>
   move_outcomes e coll = [] \<or> ok (hd (move_outcomes e coll)) \<Longrightarrow>
   Reader_iterator e coll k =
     (Status0 OK,
      Some (Iterator_ctor
        \<lparr>snapshot = table e coll, rest = from_key k (table e coll), it_status = Status_OK,
          outcomes = tl (move_outcomes e coll)\<rparr>))"
  by (cases "move_outcomes e coll")
    (auto simp: Reader_iterator_def rocksdb_NewIterator_def it_SeekToFirst_def it_Seek_def
      move_def Let_def from_key_def Status_OK_def ok_def)

lemma rest_ctor: "rest (Iterator_iter (Iterator_ctor c)) = rest c"
  by (simp add: Iterator_ctor_def capture_def)

lemma cursor_ctor: "Iterator_iter (Iterator_ctor c) = c"
  by (simp add: Iterator_ctor_def capture_def)

lemma visited_prefix:
  "take (length (visited (Reader_iterator e coll k))) (map fst (from_key k (table e coll)))
   = visited (Reader_iterator e coll k)"
proof (cases "ok (reply e (NewIterator coll))")
  case False
  then show ?thesis by (simp add: Reader_iterator_null visited_def)
next
  case True
  show ?thesis
  proof (cases "move_outcomes e coll = [] \<or> ok (hd (move_outcomes e coll))")
    case False
    with True show ?thesis by (simp add: Reader_iterator_seek_fails visited_def)
  next
    case ok1: True
    show ?thesis
      using scan_prefix [OF synced_ctor, of
          "\<lparr>snapshot = table e coll, rest = from_key k (table e coll), it_status = Status_OK,
            outcomes = tl (move_outcomes e coll)\<rparr>"]
      by (simp add: Reader_iterator_positioned [OF True ok1] visited_def not_bad_OK cursor_ctor)
  qed
qed

lemma visited_all:
  assumes "ok (reply e (NewIterator coll))" "list_all ok (move_outcomes e coll)"
  shows "visited (Reader_iterator e coll k) = map fst (from_key k (table e coll))"
proof -
  have ok1: "move_outcomes e coll = [] \<or> ok (hd (move_outcomes e coll))"
    using assms(2) by (cases "move_outcomes e coll") simp_all
  have tl: "list_all ok (tl (move_outcomes e coll))"
    using assms(2) by (cases "move_outcomes e coll") simp_all
  show ?thesis
    using scan_all [OF synced_ctor, of
        "\<lparr>snapshot = table e coll, rest = from_key k (table e coll), it_status = Status_OK,
          outcomes = tl (move_outcomes e coll)\<rparr>"] tl
    by (simp add: Reader_iterator_positioned [OF assms(1) ok1] visited_def not_bad_OK
        cursor_ctor Status_OK_def ok_def)
qed

lemma visited_ascending:
  assumes "sorted_wrt (<) (map fst (table e coll))"
  shows "sorted_wrt (<) (visited (Reader_iterator e coll k))
    \<and> list_all (\<lambda>x. k \<le> x) (visited (Reader_iterator e coll k))"
proof -
  let ?v = "visited (Reader_iterator e coll k)"
  let ?t = "map fst (from_key k (table e coll))"
  have p: "take (length ?v) ?t = ?v" by (rule visited_prefix)
  have s: "sorted_wrt (<) ?t" using assms by (rule from_key_sorted)
  have a: "list_all (\<lambda>x. k \<le> x) ?t"
    using assms by (simp add: from_key_filter list_all_iff)
  have "sorted_wrt (<) (take (length ?v) ?t)" using s by (rule sorted_wrt_take)
  moreover have "list_all (\<lambda>x. k \<le> x) (take (length ?v) ?t)"
  proof -
    have "set (take (length ?v) ?t) \<subseteq> set ?t" by (rule set_take_subset)
    with a show ?thesis unfolding list_all_iff by blast
  qed
  ultimately show ?thesis using p by simp
qed


lemma set_store: "set (store k v es) \<subseteq> insert (k, v) (set es)"
  by (induction es) (auto split: if_splits)

lemma sorted_store:
  "sorted_wrt (<) (map fst es) \<Longrightarrow> sorted_wrt (<) (map fst (store k v es))"
proof (induction es)
  case Nil
  then show ?case by simp
next
  case (Cons e es)
  obtain k' v' where e: "e = (k', v')" by (cases e)
  show ?case
  proof (cases "k < k'")
    case True
    with Cons.prems e show ?thesis by (auto simp: e)
  next
    case False
    show ?thesis
    proof (cases "k = k'")
      case True
      with Cons.prems e show ?thesis by simp
    next
      case ne: False
      with False have lt: "k' < k" by simp
      have "\<forall>x\<in>set (store k v es). k' < fst x"
        using set_store [of k v es] Cons.prems lt e by auto
      with Cons False ne e show ?thesis by simp
    qed
  qed
qed

lemma key_positioned:
  assumes "ok (reply e (NewIterator coll))"
    "move_outcomes e coll = [] \<or> ok (hd (move_outcomes e coll))"
    "sorted_wrt (<) (map fst (table e coll))" "k \<in> set (map fst (table e coll))"
  shows "map_option key (snd (Reader_iterator e coll k)) = Some k"
proof -
  obtain v es' where f: "from_key k (table e coll) = (k, v) # es'"
    using from_key_present [OF assms(3) assms(4)] by blast
  show ?thesis
    by (simp add: Reader_iterator_positioned [OF assms(1) assms(2)] f Iterator_ctor_def
        capture_def it_Valid_def it_key_def key_def)
qed

text \<open>
  C8. When the engine gives no cursor, \<^verbatim>\<open>Reader::iterator\<close> returns a failure and no iterator;
  when the first move of the cursor fails, it returns that error, mapped, and no iterator.
  Otherwise it returns OK and an iterator whose cursor stands on the first entry whose key is
  not below the start key, which for the empty start key is the first entry of the
  collection, and which is the entry of the start key itself when the collection has that
  key; the iterator is valid exactly when there is such an entry. The keys that a walk of
  the iterator visits are an initial part of the keys of the collection from that position,
  in their order, and all of them when no move of the cursor fails. With the collection in
  ascending key order, as the engine keeps it, the visited keys are strictly ascending and
  none is below the start key; they are drawn from the keys of the collection that are not
  below the start key.
\<close>

theorem Reader_iterator_contract:
  "(\<not> ok (reply e (NewIterator coll)) \<longrightarrow>
      Reader_iterator e coll k = (Status1 Failure ''rocksdb::DB::NewIterator()'', None))
   \<and> (ok (reply e (NewIterator coll)) \<and> move_outcomes e coll \<noteq> []
       \<and> \<not> ok (hd (move_outcomes e coll)) \<longrightarrow>
      Reader_iterator e coll k = (convertStatus (hd (move_outcomes e coll)), None)
      \<and> bad (convertStatus (hd (move_outcomes e coll))))
   \<and> (ok (reply e (NewIterator coll))
       \<and> (move_outcomes e coll = [] \<or> ok (hd (move_outcomes e coll))) \<longrightarrow>
      fst (Reader_iterator e coll k) = Status0 OK
      \<and> map_option (\<lambda>it. rest (Iterator_iter it)) (snd (Reader_iterator e coll k)) =
          Some (from_key k (table e coll))
      \<and> map_option (\<lambda>it. rest (Iterator_iter it)) (snd (Reader_iterator e coll [])) =
          Some (table e coll)
      \<and> map_option valid (snd (Reader_iterator e coll k)) =
          Some (from_key k (table e coll) \<noteq> [])
      \<and> (sorted_wrt (<) (map fst (table e coll)) \<and> k \<in> set (map fst (table e coll)) \<longrightarrow>
          map_option key (snd (Reader_iterator e coll k)) = Some k))
   \<and> take (length (visited (Reader_iterator e coll k))) (map fst (from_key k (table e coll))) =
       visited (Reader_iterator e coll k)
   \<and> (ok (reply e (NewIterator coll)) \<and> list_all ok (move_outcomes e coll) \<longrightarrow>
       visited (Reader_iterator e coll k) = map fst (from_key k (table e coll)))
   \<and> (sorted_wrt (<) (map fst (table e coll)) \<longrightarrow>
       sorted_wrt (<) (visited (Reader_iterator e coll k))
       \<and> list_all (\<lambda>x. k \<le> x) (visited (Reader_iterator e coll k))
       \<and> map fst (from_key k (table e coll)) = filter (\<lambda>x. k \<le> x) (map fst (table e coll)))"
proof -
  have a: "\<not> ok (reply e (NewIterator coll)) \<longrightarrow>
      Reader_iterator e coll k = (Status1 Failure ''rocksdb::DB::NewIterator()'', None)"
    by (simp add: Reader_iterator_null)
  have b: "ok (reply e (NewIterator coll)) \<and> move_outcomes e coll \<noteq> []
       \<and> \<not> ok (hd (move_outcomes e coll)) \<longrightarrow>
      Reader_iterator e coll k = (convertStatus (hd (move_outcomes e coll)), None)
      \<and> bad (convertStatus (hd (move_outcomes e coll)))"
    by (simp add: Reader_iterator_seek_fails bad_convertStatus)
  have c: "ok (reply e (NewIterator coll))
       \<and> (move_outcomes e coll = [] \<or> ok (hd (move_outcomes e coll))) \<longrightarrow>
      fst (Reader_iterator e coll k) = Status0 OK
      \<and> map_option (\<lambda>it. rest (Iterator_iter it)) (snd (Reader_iterator e coll k)) =
          Some (from_key k (table e coll))
      \<and> map_option (\<lambda>it. rest (Iterator_iter it)) (snd (Reader_iterator e coll [])) =
          Some (table e coll)
      \<and> map_option valid (snd (Reader_iterator e coll k)) =
          Some (from_key k (table e coll) \<noteq> [])
      \<and> (sorted_wrt (<) (map fst (table e coll)) \<and> k \<in> set (map fst (table e coll)) \<longrightarrow>
          map_option key (snd (Reader_iterator e coll k)) = Some k)"
  proof (intro impI, elim conjE)
    assume h: "ok (reply e (NewIterator coll))"
      "move_outcomes e coll = [] \<or> ok (hd (move_outcomes e coll))"
    have k: "sorted_wrt (<) (map fst (table e coll)) \<and> k \<in> set (map fst (table e coll)) \<longrightarrow>
          map_option key (snd (Reader_iterator e coll k)) = Some k"
      using key_positioned [OF h] by blast
    show "fst (Reader_iterator e coll k) = Status0 OK
      \<and> map_option (\<lambda>it. rest (Iterator_iter it)) (snd (Reader_iterator e coll k)) =
          Some (from_key k (table e coll))
      \<and> map_option (\<lambda>it. rest (Iterator_iter it)) (snd (Reader_iterator e coll [])) =
          Some (table e coll)
      \<and> map_option valid (snd (Reader_iterator e coll k)) =
          Some (from_key k (table e coll) \<noteq> [])
      \<and> (sorted_wrt (<) (map fst (table e coll)) \<and> k \<in> set (map fst (table e coll)) \<longrightarrow>
          map_option key (snd (Reader_iterator e coll k)) = Some k)"
      using k
      by (simp add: Reader_iterator_positioned [OF h] cursor_ctor from_key_Nil valid_def
          it_Valid_def)
  qed
  have d: "take (length (visited (Reader_iterator e coll k)))
             (map fst (from_key k (table e coll))) = visited (Reader_iterator e coll k)"
    by (rule visited_prefix)
  have f: "ok (reply e (NewIterator coll)) \<and> list_all ok (move_outcomes e coll) \<longrightarrow>
       visited (Reader_iterator e coll k) = map fst (from_key k (table e coll))"
    by (simp add: visited_all)
  have g: "sorted_wrt (<) (map fst (table e coll)) \<longrightarrow>
       sorted_wrt (<) (visited (Reader_iterator e coll k))
       \<and> list_all (\<lambda>x. k \<le> x) (visited (Reader_iterator e coll k))
       \<and> map fst (from_key k (table e coll)) = filter (\<lambda>x. k \<le> x) (map fst (table e coll))"
    using visited_ascending [of e coll k] from_key_filter [of "table e coll" k] by blast
  from a b c d f g show ?thesis by blast
qed

lemma table_abc: "table engine_abc 1 = [(''a'', ''1''), (''b'', ''2''), (''c'', ''3'')]"
  by (simp add: engine_abc_def DB_put_def rocksdb_Put_def engine_defs)

lemma reply_abc: "reply engine_abc = (\<lambda>c. Status_OK)"
  by (simp add: engine_abc_def DB_put_def rocksdb_Put_def engine_defs)

lemma outcomes_abc: "move_outcomes engine_abc = (\<lambda>h. [])"
  by (simp add: engine_abc_def DB_put_def rocksdb_Put_def engine_defs)

text \<open>
  The cases of C8 on the sample engine with the keys a, b and c: no cursor; a first move that
  fails; and the two walks of the specification, from the empty key over a, b, c and from b
  over b, c.
\<close>

theorem Reader_iterator_contract_witness:
  "\<not> ok (reply (engine_abc\<lparr>reply := (\<lambda>c. io_error)\<rparr>) (NewIterator 1))
   \<and> Reader_iterator (engine_abc\<lparr>reply := (\<lambda>c. io_error)\<rparr>) 1 ''b'' =
       (Status1 Failure ''rocksdb::DB::NewIterator()'', None)
   \<and> ok (reply (engine_abc\<lparr>move_outcomes := (\<lambda>h. [io_error])\<rparr>) (NewIterator 1))
   \<and> move_outcomes (engine_abc\<lparr>move_outcomes := (\<lambda>h. [io_error])\<rparr>) 1 \<noteq> []
   \<and> \<not> ok (hd (move_outcomes (engine_abc\<lparr>move_outcomes := (\<lambda>h. [io_error])\<rparr>) 1))
   \<and> Reader_iterator (engine_abc\<lparr>move_outcomes := (\<lambda>h. [io_error])\<rparr>) 1 ''b'' =
       (Status2 IOError ''RocksDB kIOError'' ''IO error: '', None)
   \<and> ok (reply engine_abc (NewIterator 1))
   \<and> move_outcomes engine_abc 1 = []
   \<and> list_all ok (move_outcomes engine_abc 1)
   \<and> sorted_wrt (<) (map fst (table engine_abc 1))
   \<and> ''b'' \<in> set (map fst (table engine_abc 1))
   \<and> map_option key (snd (Reader_iterator engine_abc 1 ''b'')) = Some ''b''
   \<and> map_option key (snd (Reader_iterator engine_abc 1 [])) = Some ''a''
   \<and> visited (Reader_iterator engine_abc 1 []) = [''a'', ''b'', ''c'']
   \<and> visited (Reader_iterator engine_abc 1 ''b'') = [''b'', ''c'']"
proof -
  let ?e1 = "engine_abc\<lparr>reply := (\<lambda>c. io_error)\<rparr>"
  let ?e2 = "engine_abc\<lparr>move_outcomes := (\<lambda>h. [io_error])\<rparr>"
  have h1: "\<not> ok (reply ?e1 (NewIterator 1))"
    by (simp add: io_error_def ok_def)
  have h2: "ok (reply ?e2 (NewIterator 1)) \<and> move_outcomes ?e2 1 \<noteq> []
      \<and> \<not> ok (hd (move_outcomes ?e2 1))"
    by (simp add: reply_abc io_error_def Status_OK_def ok_def)
  have h3: "ok (reply engine_abc (NewIterator 1)) \<and> move_outcomes engine_abc 1 = []
      \<and> list_all ok (move_outcomes engine_abc 1)
      \<and> sorted_wrt (<) (map fst (table engine_abc 1))
      \<and> ''b'' \<in> set (map fst (table engine_abc 1))"
    by (simp add: reply_abc outcomes_abc table_abc Status_OK_def ok_def del: One_nat_def)
  have c1: "Reader_iterator ?e1 1 ''b'' = (Status1 Failure ''rocksdb::DB::NewIterator()'', None)"
    using Reader_iterator_contract [of ?e1 1 "''b''"] h1 by blast
  have "Reader_iterator ?e2 1 ''b'' = (convertStatus (hd (move_outcomes ?e2 1)), None)"
    using Reader_iterator_contract [of ?e2 1 "''b''"] h2 by blast
  then have c2: "Reader_iterator ?e2 1 ''b'' =
      (Status2 IOError ''RocksDB kIOError'' ''IO error: '', None)"
    by (simp add: io_error_def convertStatus_def)
  have c3: "map_option key (snd (Reader_iterator engine_abc 1 ''b'')) = Some ''b''"
    using Reader_iterator_contract [of engine_abc 1 "''b''"] h3 by blast
  have "visited (Reader_iterator engine_abc 1 ''b'') =
      map fst (from_key ''b'' (table engine_abc 1))"
    using Reader_iterator_contract [of engine_abc 1 "''b''"] h3 by blast
  then have c4: "visited (Reader_iterator engine_abc 1 ''b'') = [''b'', ''c'']"
    by (simp add: table_abc from_key_def del: One_nat_def)
  have "visited (Reader_iterator engine_abc 1 []) = map fst (from_key [] (table engine_abc 1))"
    using Reader_iterator_contract [of engine_abc 1 "[]"] h3 by blast
  then have c5: "visited (Reader_iterator engine_abc 1 []) = [''a'', ''b'', ''c'']"
    by (simp add: table_abc from_key_def del: One_nat_def)
  have c6: "map_option key (snd (Reader_iterator engine_abc 1 [])) = Some ''a''"
    by (simp add: Reader_iterator_positioned table_abc reply_abc outcomes_abc from_key_def
        Status_OK_def ok_def Iterator_ctor_def capture_def it_Valid_def it_key_def key_def
        del: One_nat_def)
  from h1 h2 h3 c1 c2 c3 c4 c5 c6 show ?thesis by simp
qed

end
